theory Spec2Isabelle
  imports Main "HOL-Library.Sublist"
begin

section \<open>Go values\<close>

text \<open>
  Go's \<open>int\<close> is modelled by \<open>int\<close>; the only place where its width matters is the
  conversion \<open>rune(userId)\<close> of the self-or-admin gate, where the truncation to 32 bits
  is written out. A Go \<open>string\<close> is a sequence of bytes, as is \<open>string\<close> here.
\<close>

text \<open>
  Error values. Every error variable that the repository declares with \<open>errors.New\<close> is a
  constructor of its own, named by its package: \<open>repository.ErrUserNotFound\<close> and
  \<open>repository.ErrDuplicateEmail\<close> (internal/pkg/repository/errors.go),
  \<open>postgres.ErrNoUser\<close> and \<open>postgres.ErrDuplicateEmail\<close>
  (internal/pkg/repository/postgres/errors.go), and \<open>ErrInvalidToken\<close> and
  \<open>ErrExpiredToken\<close> of package \<open>auth\<close>. Two such variables are different values
  even when their texts agree, and \<open>errors.Is\<close> compares values. \<open>sql_ErrNoRows\<close> is
  \<open>sql.ErrNoRows\<close> of the standard library, \<open>ErrorString\<close> any other \<open>errors.New\<close>
  value, and \<open>Wrapped\<close> an error that wraps another one (\<open>fmt.Errorf\<close> with \<open>%w\<close>),
  carrying its whole message.
\<close>

datatype go_error =
    repository_ErrUserNotFound
  | repository_ErrDuplicateEmail
  | postgres_ErrNoUser
  | postgres_ErrDuplicateEmail
  | sql_ErrNoRows
  | ErrInvalidToken
  | ErrExpiredToken
  | ErrorString string
  | Wrapped string go_error

fun errors_Is :: "go_error \<Rightarrow> go_error \<Rightarrow> bool" where
  "errors_Is (Wrapped m e) target = (Wrapped m e = target \<or> errors_Is e target)"
| "errors_Is e target = (e = target)"

fun Error :: "go_error \<Rightarrow> string" where
  "Error repository_ErrUserNotFound = ''user not found''"
| "Error repository_ErrDuplicateEmail = ''email already exists''"
| "Error postgres_ErrNoUser = ''user not found''"
| "Error postgres_ErrDuplicateEmail = ''email already exists''"
| "Error sql_ErrNoRows = ''sql: no rows in result set''"
| "Error ErrInvalidToken = ''invalid token''"
| "Error ErrExpiredToken = ''token has expired''"
| "Error (ErrorString s) = s"
| "Error (Wrapped m e) = m"

text \<open>Decimal formatting of an integer, as \<open>%d\<close> of \<open>fmt.Sprintf\<close> prints it.\<close>

definition digit_char :: "nat \<Rightarrow> char" where
  "digit_char d = char_of (48 + int d)"

fun digits :: "nat \<Rightarrow> string" where
  "digits n = (if n < 10 then [digit_char n] else digits (n div 10) @ [digit_char (n mod 10)])"

definition Itoa :: "int \<Rightarrow> string" where
  "Itoa i = (if i < 0 then CHR ''-'' # digits (nat (- i)) else digits (nat i))"

text \<open>
  The conversion \<open>string(rune(n))\<close>: \<open>rune\<close> is \<open>int32\<close>, so the conversion from \<open>int\<close>
  keeps the low 32 bits as a signed value; \<open>string\<close> of a rune is the UTF-8 encoding of
  that code point, and of U+FFFD for a value that is no valid code point.
\<close>

definition rune_of_int :: "int \<Rightarrow> int" where
  "rune_of_int n = signed_take_bit 31 n"

definition string_of_rune :: "int \<Rightarrow> string" where
  "string_of_rune r =
     (if r < 0 \<or> 1114111 < r \<or> (55296 \<le> r \<and> r \<le> 57343)
        then [char_of (239::int), char_of (191::int), char_of (189::int)]
      else if r < 128 then [char_of r]
      else if r < 2048 then [char_of (192 + r div 64), char_of (128 + r mod 64)]
      else if r < 65536
        then [char_of (224 + r div 4096), char_of (128 + (r div 64) mod 64),
              char_of (128 + r mod 64)]
      else [char_of (240 + r div 262144), char_of (128 + (r div 4096) mod 64),
            char_of (128 + (r div 64) mod 64), char_of (128 + r mod 64)])"

definition HasPrefix :: "string \<Rightarrow> string \<Rightarrow> bool" where
  "HasPrefix s p = prefix p s"

fun Contains :: "string \<Rightarrow> string \<Rightarrow> bool" where
  "Contains [] substr = (substr = [])"
| "Contains (c # s) substr = (prefix substr (c # s) \<or> Contains s substr)"

definition TrimPrefix :: "string \<Rightarrow> string \<Rightarrow> string" where
  "TrimPrefix s p = (if HasPrefix s p then drop (length p) s else s)"

section \<open>Domain errors (internal/pkg/domain/errors.go)\<close>

datatype domain_error =
    InternalServerError string "go_error option"
  | UnauthorizedError string
  | ForbiddenError string
  | ValidationError string string
  | UserNotFoundError int string
  | UserAlreadyExistsError string
  | InvalidCredentialsError
  | InvalidRoleError string

fun HTTPStatus :: "domain_error \<Rightarrow> nat" where
  "HTTPStatus (InternalServerError m e) = 500"
| "HTTPStatus (UnauthorizedError r) = 401"
| "HTTPStatus (ForbiddenError r) = 403"
| "HTTPStatus (ValidationError f m) = 400"
| "HTTPStatus (UserNotFoundError i e) = 404"
| "HTTPStatus (UserAlreadyExistsError e) = 409"
| "HTTPStatus InvalidCredentialsError = 401"
| "HTTPStatus (InvalidRoleError r) = 400"

fun domain_Error :: "domain_error \<Rightarrow> string" where
  "domain_Error (InternalServerError m None) = m"
| "domain_Error (InternalServerError m (Some e)) = m @ '': '' @ Error e"
| "domain_Error (UnauthorizedError r) = ''unauthorized: '' @ r"
| "domain_Error (ForbiddenError r) = ''forbidden: '' @ r"
| "domain_Error (ValidationError f m) =
     (if f \<noteq> [] then ''validation error on field '' @ [CHR 39] @ f @ [CHR 39] @ '': '' @ m
      else ''validation error: '' @ m)"
| "domain_Error (UserNotFoundError i e) =
     (if i \<noteq> 0 then ''user not found with id: '' @ Itoa i
      else if e \<noteq> [] then ''user not found with email: '' @ e
      else ''user not found'')"
| "domain_Error (UserAlreadyExistsError e) = ''user already exists with email: '' @ e"
| "domain_Error InvalidCredentialsError = ''invalid email or password''"
| "domain_Error (InvalidRoleError r) = ''invalid role: '' @ r"

section \<open>Entities (package entity)\<close>

record User =
  u_Id :: int
  u_Email :: string
  u_Username :: string
  u_Password :: string
  u_Name :: string
  u_Role :: string
  u_IsActive :: bool
  u_CreatedAt :: int
  u_UpdatedAt :: int

definition RoleAdmin :: string where "RoleAdmin = ''admin''"
definition RoleUser :: string where "RoleUser = ''user''"
definition RoleViewer :: string where "RoleViewer = ''viewer''"

definition IsValidRole :: "string \<Rightarrow> bool" where
  "IsValidRole role = (role = RoleAdmin \<or> role = RoleUser \<or> role = RoleViewer)"

section \<open>Credential hasher (internal/pkg/auth/password.go)\<close>

text \<open>
  The three cost constants belong to golang.org/x/crypto/bcrypt, which is not part of the
  repository; they are parameters of the constructor.
\<close>

record bcrypt =
  MinCost :: int
  MaxCost :: int
  DefaultCost :: int

record PasswordHasher =
  cost :: int

definition NewPasswordHasher :: "bcrypt \<Rightarrow> int \<Rightarrow> PasswordHasher" where
  "NewPasswordHasher b c =
     (let c' = (if c < MinCost b \<or> c > MaxCost b then DefaultCost b else c)
      in \<lparr>cost = c'\<rparr>)"

section \<open>Account service (internal/app/server/service/user)\<close>

text \<open>
  The service reaches storage and the hasher through the interfaces \<open>IUserRepository\<close>
  and \<open>IPasswordHasher\<close> only. An implementation is a record of operations over a state
  \<open>'s\<close> of its own; each operation returns its Go result and the next state. A Go
  result \<open>(v, err)\<close> is the sum \<open>Inl err\<close> or \<open>Inr v\<close>, a result \<open>error\<close> alone is an
  option (\<open>None\<close> is \<open>nil\<close>).
\<close>

record 's IUserRepository =
  repo_InsertUser :: "User \<Rightarrow> 's \<Rightarrow> (go_error + int) \<times> 's"
  repo_GetUserById :: "int \<Rightarrow> 's \<Rightarrow> (go_error + User) \<times> 's"
  repo_GetUserByEmail :: "string \<Rightarrow> 's \<Rightarrow> (go_error + User) \<times> 's"
  repo_ExistsUserByEmail :: "string \<Rightarrow> 's \<Rightarrow> (go_error + bool) \<times> 's"
  repo_UpdateUser :: "User \<Rightarrow> 's \<Rightarrow> go_error option \<times> 's"
  repo_UpdateUserPassword :: "int \<Rightarrow> string \<Rightarrow> 's \<Rightarrow> go_error option \<times> 's"

record 's IPasswordHasher =
  hasher_Hash :: "string \<Rightarrow> 's \<Rightarrow> (go_error + string) \<times> 's"
  hasher_Compare :: "string \<Rightarrow> string \<Rightarrow> 's \<Rightarrow> go_error option \<times> 's"

record 's Service =
  userRepo :: "'s IUserRepository"
  passwordHasher :: "'s IPasswordHasher"

text \<open>
  Every call through an interface is recorded, with its arguments and its result, in a
  log that the service threads beside the collaborators' state.
\<close>

datatype event =
    CallInsertUser User "go_error + int"
  | CallGetUserById int "go_error + User"
  | CallGetUserByEmail string "go_error + User"
  | CallExistsUserByEmail string "go_error + bool"
  | CallUpdateUser User "go_error option"
  | CallUpdateUserPassword int string "go_error option"
  | CallHash string "go_error + string"
  | CallCompare string string "go_error option"

type_synonym 's world = "'s \<times> event list"

definition call_InsertUser :: "'s Service \<Rightarrow> User \<Rightarrow> 's world \<Rightarrow> (go_error + int) \<times> 's world" where
  "call_InsertUser svc user w =
     (case repo_InsertUser (userRepo svc) user (fst w) of
        (r, s') \<Rightarrow> (r, (s', snd w @ [CallInsertUser user r])))"

definition call_GetUserById :: "'s Service \<Rightarrow> int \<Rightarrow> 's world \<Rightarrow> (go_error + User) \<times> 's world" where
  "call_GetUserById svc i w =
     (case repo_GetUserById (userRepo svc) i (fst w) of
        (r, s') \<Rightarrow> (r, (s', snd w @ [CallGetUserById i r])))"

definition call_GetUserByEmail :: "'s Service \<Rightarrow> string \<Rightarrow> 's world \<Rightarrow> (go_error + User) \<times> 's world" where
  "call_GetUserByEmail svc email w =
     (case repo_GetUserByEmail (userRepo svc) email (fst w) of
        (r, s') \<Rightarrow> (r, (s', snd w @ [CallGetUserByEmail email r])))"

definition call_ExistsUserByEmail :: "'s Service \<Rightarrow> string \<Rightarrow> 's world \<Rightarrow> (go_error + bool) \<times> 's world" where
  "call_ExistsUserByEmail svc email w =
     (case repo_ExistsUserByEmail (userRepo svc) email (fst w) of
        (r, s') \<Rightarrow> (r, (s', snd w @ [CallExistsUserByEmail email r])))"

definition call_UpdateUser :: "'s Service \<Rightarrow> User \<Rightarrow> 's world \<Rightarrow> go_error option \<times> 's world" where
  "call_UpdateUser svc user w =
     (case repo_UpdateUser (userRepo svc) user (fst w) of
        (r, s') \<Rightarrow> (r, (s', snd w @ [CallUpdateUser user r])))"

definition call_UpdateUserPassword :: "'s Service \<Rightarrow> int \<Rightarrow> string \<Rightarrow> 's world \<Rightarrow> go_error option \<times> 's world" where
  "call_UpdateUserPassword svc i h w =
     (case repo_UpdateUserPassword (userRepo svc) i h (fst w) of
        (r, s') \<Rightarrow> (r, (s', snd w @ [CallUpdateUserPassword i h r])))"

definition call_Hash :: "'s Service \<Rightarrow> string \<Rightarrow> 's world \<Rightarrow> (go_error + string) \<times> 's world" where
  "call_Hash svc password w =
     (case hasher_Hash (passwordHasher svc) password (fst w) of
        (r, s') \<Rightarrow> (r, (s', snd w @ [CallHash password r])))"

definition call_Compare :: "'s Service \<Rightarrow> string \<Rightarrow> string \<Rightarrow> 's world \<Rightarrow> go_error option \<times> 's world" where
  "call_Compare svc hashed password w =
     (case hasher_Compare (passwordHasher svc) hashed password (fst w) of
        (r, s') \<Rightarrow> (r, (s', snd w @ [CallCompare hashed password r])))"

definition is_InsertUser :: "event \<Rightarrow> bool" where
  "is_InsertUser ev = (case ev of CallInsertUser u r \<Rightarrow> True | _ \<Rightarrow> False)"

definition is_UpdateUser :: "event \<Rightarrow> bool" where
  "is_UpdateUser ev = (case ev of CallUpdateUser u r \<Rightarrow> True | _ \<Rightarrow> False)"

definition is_Hash :: "event \<Rightarrow> bool" where
  "is_Hash ev = (case ev of CallHash p r \<Rightarrow> True | _ \<Rightarrow> False)"

subsection \<open>Inputs (input.go)\<close>

record CreateUserInput =
  cui_Email :: string
  cui_Username :: string
  cui_Password :: string
  cui_Name :: string
  cui_Role :: string

record UpdateUserInput =
  uui_Id :: int
  uui_Email :: "string option"
  uui_Username :: "string option"
  uui_Name :: "string option"
  uui_Role :: "string option"
  uui_IsActive :: "bool option"

record ChangePasswordInput =
  cpi_UserId :: int
  cpi_CurrentPassword :: string
  cpi_NewPassword :: string

record LoginInput =
  li_Email :: string
  li_Password :: string

subsection \<open>CreateUser\<close>

definition CreateUser :: "'s Service \<Rightarrow> CreateUserInput \<Rightarrow> 's world \<Rightarrow> (domain_error + int) \<times> 's world" where
  "CreateUser svc input w =
     (if \<not> IsValidRole (cui_Role input) then (Inl (InvalidRoleError (cui_Role input)), w)
      else
       (case call_ExistsUserByEmail svc (cui_Email input) w of
          (Inl err, w1) \<Rightarrow>
            (Inl (InternalServerError ''failed to check email existence'' (Some err)), w1)
        | (Inr exists, w1) \<Rightarrow>
            (if exists then (Inl (UserAlreadyExistsError (cui_Email input)), w1)
             else
              (case call_Hash svc (cui_Password input) w1 of
                 (Inl err, w2) \<Rightarrow>
                   (Inl (InternalServerError ''failed to hash password'' (Some err)), w2)
               | (Inr hashedPassword, w2) \<Rightarrow>
                   (let user = \<lparr>u_Id = 0, u_Email = cui_Email input,
                                u_Username = cui_Username input, u_Password = hashedPassword,
                                u_Name = cui_Name input, u_Role = cui_Role input,
                                u_IsActive = True, u_CreatedAt = 0, u_UpdatedAt = 0\<rparr>
                    in (case call_InsertUser svc user w2 of
                          (Inl err, w3) \<Rightarrow>
                            (if errors_Is err repository_ErrDuplicateEmail
                             then (Inl (UserAlreadyExistsError (cui_Email input)), w3)
                             else (Inl (InternalServerError ''failed to create user'' (Some err)), w3))
                        | (Inr userId, w3) \<Rightarrow> (Inr userId, w3)))))))"

subsection \<open>UpdateUser\<close>

text \<open>
  The body of \<open>UpdateUser\<close> works on the fetched user and the flag \<open>hasChanges\<close>; each
  of its five blocks is a step on that pair. The email and the role block can return early.
  The Go code writes the fields through the pointer that the repository returned; the
  model works on the value, which is the same as long as no field is written.
\<close>

definition UpdateUser_email ::
  "'s Service \<Rightarrow> UpdateUserInput \<Rightarrow> User \<times> bool \<Rightarrow> 's world \<Rightarrow> (domain_error + User \<times> bool) \<times> 's world" where
  "UpdateUser_email svc input uh w =
     (case uui_Email input of
        None \<Rightarrow> (Inr uh, w)
      | Some email \<Rightarrow>
          if email \<noteq> u_Email (fst uh) then
            (case call_ExistsUserByEmail svc email w of
               (Inl err, w1) \<Rightarrow>
                 (Inl (InternalServerError ''failed to check email existence'' (Some err)), w1)
             | (Inr exists, w1) \<Rightarrow>
                 if exists then (Inl (UserAlreadyExistsError email), w1)
                 else (Inr ((fst uh)\<lparr>u_Email := email\<rparr>, True), w1))
          else (Inr uh, w))"

definition UpdateUser_username :: "UpdateUserInput \<Rightarrow> User \<times> bool \<Rightarrow> User \<times> bool" where
  "UpdateUser_username input uh =
     (case uui_Username input of
        None \<Rightarrow> uh
      | Some username \<Rightarrow>
          if username \<noteq> u_Username (fst uh) then ((fst uh)\<lparr>u_Username := username\<rparr>, True) else uh)"

definition UpdateUser_name :: "UpdateUserInput \<Rightarrow> User \<times> bool \<Rightarrow> User \<times> bool" where
  "UpdateUser_name input uh =
     (case uui_Name input of
        None \<Rightarrow> uh
      | Some name \<Rightarrow> if name \<noteq> u_Name (fst uh) then ((fst uh)\<lparr>u_Name := name\<rparr>, True) else uh)"

definition UpdateUser_role :: "UpdateUserInput \<Rightarrow> User \<times> bool \<Rightarrow> domain_error + User \<times> bool" where
  "UpdateUser_role input uh =
     (case uui_Role input of
        None \<Rightarrow> Inr uh
      | Some role \<Rightarrow>
          if role \<noteq> u_Role (fst uh) then
            (if \<not> IsValidRole role then Inl (InvalidRoleError role)
             else Inr ((fst uh)\<lparr>u_Role := role\<rparr>, True))
          else Inr uh)"

definition UpdateUser_isActive :: "UpdateUserInput \<Rightarrow> User \<times> bool \<Rightarrow> User \<times> bool" where
  "UpdateUser_isActive input uh =
     (case uui_IsActive input of
        None \<Rightarrow> uh
      | Some active \<Rightarrow>
          if active \<noteq> u_IsActive (fst uh) then ((fst uh)\<lparr>u_IsActive := active\<rparr>, True) else uh)"

definition UpdateUser_persist :: "'s Service \<Rightarrow> User \<times> bool \<Rightarrow> 's world \<Rightarrow> domain_error option \<times> 's world" where
  "UpdateUser_persist svc uh w =
     (if snd uh then
        (case call_UpdateUser svc (fst uh) w of
           (Some err, w1) \<Rightarrow>
             if errors_Is err repository_ErrDuplicateEmail
             then (Some (UserAlreadyExistsError (u_Email (fst uh))), w1)
             else (Some (InternalServerError ''failed to update user'' (Some err)), w1)
         | (None, w1) \<Rightarrow> (None, w1))
      else (None, w))"

definition UpdateUser :: "'s Service \<Rightarrow> UpdateUserInput \<Rightarrow> 's world \<Rightarrow> domain_error option \<times> 's world" where
  "UpdateUser svc input w =
     (case call_GetUserById svc (uui_Id input) w of
        (Inl err, w1) \<Rightarrow>
          if errors_Is err repository_ErrUserNotFound then (Some (UserNotFoundError (uui_Id input) []), w1)
          else (Some (InternalServerError ''failed to get user'' (Some err)), w1)
      | (Inr user, w1) \<Rightarrow>
          (case UpdateUser_email svc input (user, False) w1 of
             (Inl e, w2) \<Rightarrow> (Some e, w2)
           | (Inr uh1, w2) \<Rightarrow>
               (case UpdateUser_role input (UpdateUser_name input (UpdateUser_username input uh1)) of
                  Inl e \<Rightarrow> (Some e, w2)
                | Inr uh4 \<Rightarrow> UpdateUser_persist svc (UpdateUser_isActive input uh4) w2)))"

subsection \<open>ChangePassword and Login\<close>

definition ChangePassword :: "'s Service \<Rightarrow> ChangePasswordInput \<Rightarrow> 's world \<Rightarrow> domain_error option \<times> 's world" where
  "ChangePassword svc input w =
     (case call_GetUserById svc (cpi_UserId input) w of
        (Inl err, w1) \<Rightarrow>
          if errors_Is err repository_ErrUserNotFound then (Some (UserNotFoundError (cpi_UserId input) []), w1)
          else (Some (InternalServerError ''failed to get user'' (Some err)), w1)
      | (Inr user, w1) \<Rightarrow>
          (case call_Compare svc (u_Password user) (cpi_CurrentPassword input) w1 of
             (Some err, w2) \<Rightarrow> (Some InvalidCredentialsError, w2)
           | (None, w2) \<Rightarrow>
               (case call_Hash svc (cpi_NewPassword input) w2 of
                  (Inl err, w3) \<Rightarrow>
                    (Some (InternalServerError ''failed to hash password'' (Some err)), w3)
                | (Inr hashedPassword, w3) \<Rightarrow>
                    (case call_UpdateUserPassword svc (cpi_UserId input) hashedPassword w3 of
                       (Some err, w4) \<Rightarrow>
                         (Some (InternalServerError ''failed to update password'' (Some err)), w4)
                     | (None, w4) \<Rightarrow> (None, w4)))))"

definition Login :: "'s Service \<Rightarrow> LoginInput \<Rightarrow> 's world \<Rightarrow> (domain_error + User) \<times> 's world" where
  "Login svc input w =
     (case call_GetUserByEmail svc (li_Email input) w of
        (Inl err, w1) \<Rightarrow>
          if errors_Is err repository_ErrUserNotFound then (Inl InvalidCredentialsError, w1)
          else (Inl (InternalServerError ''failed to get user'' (Some err)), w1)
      | (Inr user, w1) \<Rightarrow>
          if \<not> u_IsActive user then (Inl InvalidCredentialsError, w1)
          else (case call_Compare svc (u_Password user) (li_Password input) w1 of
                  (Some err, w2) \<Rightarrow> (Inl InvalidCredentialsError, w2)
                | (None, w2) \<Rightarrow> (Inr user, w2)))"

section \<open>PostgreSQL repository (internal/pkg/repository/postgres/user.go)\<close>

text \<open>
  The package database/sql and the database behind it are not part of the repository.
  The handle \<open>r.db\<close> is a record with one operation for each statement that user.go
  runs, over a state \<open>'s\<close> of the database: the operation answers what \<open>Scan\<close> reports
  for a query (an error, or the values scanned), and for an update what \<open>ExecContext\<close>
  reports (an error, or a result whose \<open>RowsAffected\<close> is again an error or a count).
  The methods of \<open>Repository\<close> are the ones that the account service calls.
\<close>

record 's sql_DB =
  db_insert_user :: "User \<Rightarrow> 's \<Rightarrow> (go_error + int) \<times> 's"
  db_select_user_by_id :: "int \<Rightarrow> 's \<Rightarrow> (go_error + User) \<times> 's"
  db_select_user_by_email :: "string \<Rightarrow> 's \<Rightarrow> (go_error + User) \<times> 's"
  db_select_exists_email :: "string \<Rightarrow> 's \<Rightarrow> (go_error + bool) \<times> 's"
  db_update_user :: "User \<Rightarrow> 's \<Rightarrow> (go_error + (go_error + int)) \<times> 's"
  db_update_password :: "int \<Rightarrow> string \<Rightarrow> 's \<Rightarrow> (go_error + (go_error + int)) \<times> 's"

definition Repository_InsertUser :: "'s sql_DB \<Rightarrow> User \<Rightarrow> 's \<Rightarrow> (go_error + int) \<times> 's" where
  "Repository_InsertUser db user s =
     (case db_insert_user db user s of
        (Inl err, s') \<Rightarrow>
          (if Contains (Error err) ''unique constraint'' \<or> Contains (Error err) ''duplicate key''
           then (Inl postgres_ErrDuplicateEmail, s')
           else (Inl err, s'))
      | (Inr i, s') \<Rightarrow> (Inr i, s'))"

definition Repository_GetUserById :: "'s sql_DB \<Rightarrow> int \<Rightarrow> 's \<Rightarrow> (go_error + User) \<times> 's" where
  "Repository_GetUserById db i s =
     (case db_select_user_by_id db i s of
        (Inl err, s') \<Rightarrow>
          (if errors_Is err sql_ErrNoRows then (Inl postgres_ErrNoUser, s') else (Inl err, s'))
      | (Inr user, s') \<Rightarrow> (Inr user, s'))"

definition Repository_GetUserByEmail :: "'s sql_DB \<Rightarrow> string \<Rightarrow> 's \<Rightarrow> (go_error + User) \<times> 's" where
  "Repository_GetUserByEmail db email s =
     (case db_select_user_by_email db email s of
        (Inl err, s') \<Rightarrow>
          (if errors_Is err sql_ErrNoRows then (Inl postgres_ErrNoUser, s') else (Inl err, s'))
      | (Inr user, s') \<Rightarrow> (Inr user, s'))"

definition Repository_ExistsUserByEmail :: "'s sql_DB \<Rightarrow> string \<Rightarrow> 's \<Rightarrow> (go_error + bool) \<times> 's" where
  "Repository_ExistsUserByEmail db email s =
     (case db_select_exists_email db email s of
        (Inl err, s') \<Rightarrow> (Inl err, s')
      | (Inr exists, s') \<Rightarrow> (Inr exists, s'))"

definition Repository_UpdateUser :: "'s sql_DB \<Rightarrow> User \<Rightarrow> 's \<Rightarrow> go_error option \<times> 's" where
  "Repository_UpdateUser db user s =
     (case db_update_user db user s of
        (Inl err, s') \<Rightarrow>
          (if Contains (Error err) ''unique constraint'' \<or> Contains (Error err) ''duplicate key''
           then (Some postgres_ErrDuplicateEmail, s')
           else (Some err, s'))
      | (Inr (Inl err), s') \<Rightarrow> (Some err, s')
      | (Inr (Inr rowsAffected), s') \<Rightarrow>
          (if rowsAffected = 0 then (Some postgres_ErrNoUser, s') else (None, s')))"

definition Repository_UpdateUserPassword ::
  "'s sql_DB \<Rightarrow> int \<Rightarrow> string \<Rightarrow> 's \<Rightarrow> go_error option \<times> 's" where
  "Repository_UpdateUserPassword db i hashedPassword s =
     (case db_update_password db i hashedPassword s of
        (Inl err, s') \<Rightarrow> (Some err, s')
      | (Inr (Inl err), s') \<Rightarrow> (Some err, s')
      | (Inr (Inr rowsAffected), s') \<Rightarrow>
          (if rowsAffected = 0 then (Some postgres_ErrNoUser, s') else (None, s')))"

text \<open>The repository value that cmd/server/main.go hands to the service.\<close>

definition Repository :: "'s sql_DB \<Rightarrow> 's IUserRepository" where
  "Repository db =
     \<lparr>repo_InsertUser = Repository_InsertUser db,
      repo_GetUserById = Repository_GetUserById db,
      repo_GetUserByEmail = Repository_GetUserByEmail db,
      repo_ExistsUserByEmail = Repository_ExistsUserByEmail db,
      repo_UpdateUser = Repository_UpdateUser db,
      repo_UpdateUserPassword = Repository_UpdateUserPassword db\<rparr>"

section \<open>Token service (internal/pkg/auth/jwt.go)\<close>

text \<open>
  Times are nanoseconds since the epoch and a \<open>time.Duration\<close> is a number of
  nanoseconds; \<open>time.Now()\<close> is an argument \<open>now\<close> of the operation that reads the clock.
\<close>

definition Hour :: int where
  "Hour = 3600000000000"

record JWTConfig =
  cfg_SecretKey :: string
  cfg_TokenDuration :: int
  cfg_Issuer :: string

record JWTService =
  secretKey :: string
  tokenDuration :: int
  issuer :: string

record CustomClaims =
  cc_UserId :: int
  cc_Role :: string
  cc_Issuer :: string
  cc_IssuedAt :: "int option"
  cc_ExpiresAt :: "int option"

record Claims =
  c_UserId :: int
  c_Role :: string

text \<open>
  The package github.com/golang-jwt/jwt/v5 is not part of the repository. What the token
  service uses of it is a parameter \<open>jwt_lib\<close>: the conversion \<open>jwt.NewNumericDate\<close>, the
  signing \<open>jwt.NewWithClaims(jwt.SigningMethodHS256, claims).SignedString(key)\<close>, and
  \<open>jwt.ParseWithClaims\<close>, which reads the clock and calls the key function it is given.
  \<open>Verify lib key tok\<close> says that \<open>tok\<close> is a well-formed HMAC-signed token whose
  signature verifies under \<open>key\<close>; the service never calls it, it serves to state what
  the library does. An error of the library is the list of the library's sentinel errors
  that \<open>errors.Is\<close> finds in it. A parse returns an error (with or without a token), or a
  token and no error.
\<close>

datatype jwt_sentinel =
    ErrTokenMalformed
  | ErrTokenUnverifiable
  | ErrTokenSignatureInvalid
  | ErrTokenExpired
  | ErrTokenNotValidYet
  | ErrTokenInvalidClaims
  | ErrKeyfunc go_error

datatype signing_method = SigningMethodHMAC string | SigningMethodOther string

datatype token_claims = CustomClaimsPtr CustomClaims | OtherClaims

record Token =
  tk_Method :: signing_method
  tk_Claims :: token_claims
  tk_Valid :: bool

datatype parse_result = ParseError "Token option" "jwt_sentinel list" | ParseOK Token

record jwt_lib =
  NewNumericDate :: "int \<Rightarrow> int"
  SignedString :: "string \<Rightarrow> CustomClaims \<Rightarrow> go_error + string"
  ParseWithClaims :: "int \<Rightarrow> string \<Rightarrow> (Token \<Rightarrow> go_error + string) \<Rightarrow> parse_result"
  Verify :: "string \<Rightarrow> string \<Rightarrow> bool"

definition jwt_errors_Is :: "jwt_sentinel list \<Rightarrow> jwt_sentinel \<Rightarrow> bool" where
  "jwt_errors_Is err target = (target \<in> set err)"

definition NewJWTService :: "JWTConfig \<Rightarrow> go_error + JWTService" where
  "NewJWTService config =
     (if cfg_SecretKey config = [] then Inl (ErrorString ''secret key is required'')
      else
        (let tokenDuration' = (if cfg_TokenDuration config = 0 then 24 * Hour
                               else cfg_TokenDuration config);
             issuer' = (if cfg_Issuer config = [] then ''go-backend-template''
                        else cfg_Issuer config)
         in Inr \<lparr>secretKey = cfg_SecretKey config, tokenDuration = tokenDuration',
                  issuer = issuer'\<rparr>))"

definition GenerateToken_claims :: "jwt_lib \<Rightarrow> JWTService \<Rightarrow> int \<Rightarrow> int \<Rightarrow> string \<Rightarrow> CustomClaims" where
  "GenerateToken_claims lib s now userId role =
     \<lparr>cc_UserId = userId, cc_Role = role, cc_Issuer = issuer s,
      cc_IssuedAt = Some (NewNumericDate lib now),
      cc_ExpiresAt = Some (NewNumericDate lib (now + tokenDuration s))\<rparr>"

definition GenerateToken :: "jwt_lib \<Rightarrow> JWTService \<Rightarrow> int \<Rightarrow> int \<Rightarrow> string \<Rightarrow> go_error + string" where
  "GenerateToken lib s now userId role =
     SignedString lib (secretKey s) (GenerateToken_claims lib s now userId role)"

definition keyfunc :: "JWTService \<Rightarrow> Token \<Rightarrow> go_error + string" where
  "keyfunc s token =
     (case tk_Method token of
        SigningMethodHMAC alg \<Rightarrow> Inr (secretKey s)
      | SigningMethodOther alg \<Rightarrow> Inl ErrInvalidToken)"

definition ValidateToken :: "jwt_lib \<Rightarrow> JWTService \<Rightarrow> int \<Rightarrow> string \<Rightarrow> go_error + Claims" where
  "ValidateToken lib s now tokenString =
     (case ParseWithClaims lib now tokenString (keyfunc s) of
        ParseError t err \<Rightarrow>
          (if jwt_errors_Is err ErrTokenExpired then Inl ErrExpiredToken else Inl ErrInvalidToken)
      | ParseOK token \<Rightarrow>
          (case tk_Claims token of
             OtherClaims \<Rightarrow> Inl ErrInvalidToken
           | CustomClaimsPtr claims \<Rightarrow>
               (if \<not> tk_Valid token then Inl ErrInvalidToken
                else Inr \<lparr>c_UserId = cc_UserId claims, c_Role = cc_Role claims\<rparr>)))"



section \<open>The request context (gin.Context, handler/context.go, handler/base.go)\<close>

text \<open>
  Of gin's context the model keeps what the middleware and the handlers read and write:
  the request headers as \<open>c.GetHeader\<close> answers them (the empty string for a header that
  is not set), the path parameters, the request-scoped keys, and the response (headers,
  status, the JSON object written) with the flag that \<open>Abort\<close> sets. In the source every
  \<open>c.Next()\<close> is the last statement of its handler, so a handler passes when it returns
  without aborting, and the engine goes on to the next handler of the chain.
\<close>

datatype ctx_value = IntValue int | StringValue string

datatype json_val = JString string | JStrings "string list"

record Context =
  req_Header :: "string \<Rightarrow> string"
  req_Params :: "(string \<times> string) list"
  Keys :: "string \<rightharpoonup> ctx_value"
  resp_Header :: "string \<rightharpoonup> string"
  resp_Status :: "nat option"
  resp_Body :: "string \<rightharpoonup> json_val"
  aborted :: bool

definition GetHeader :: "Context \<Rightarrow> string \<Rightarrow> string" where
  "GetHeader c key = req_Header c key"

definition Param :: "Context \<Rightarrow> string \<Rightarrow> string" where
  "Param c key = (case map_of (req_Params c) key of None \<Rightarrow> [] | Some v \<Rightarrow> v)"

definition Header :: "string \<Rightarrow> string \<Rightarrow> Context \<Rightarrow> Context" where
  "Header key val c =
     (if val = [] then c\<lparr>resp_Header := (resp_Header c)(key := None)\<rparr>
      else c\<lparr>resp_Header := (resp_Header c)(key \<mapsto> val)\<rparr>)"

definition Set :: "string \<Rightarrow> ctx_value \<Rightarrow> Context \<Rightarrow> Context" where
  "Set key val c = c\<lparr>Keys := (Keys c)(key \<mapsto> val)\<rparr>"

definition GetInt :: "Context \<Rightarrow> string \<Rightarrow> int" where
  "GetInt c key = (case Keys c key of Some (IntValue i) \<Rightarrow> i | _ \<Rightarrow> 0)"

definition GetString :: "Context \<Rightarrow> string \<Rightarrow> string" where
  "GetString c key = (case Keys c key of Some (StringValue s) \<Rightarrow> s | _ \<Rightarrow> [])"

definition AbortWithStatusJSON :: "nat \<Rightarrow> (string \<rightharpoonup> json_val) \<Rightarrow> Context \<Rightarrow> Context" where
  "AbortWithStatusJSON code body c = c\<lparr>resp_Status := Some code, resp_Body := body, aborted := True\<rparr>"

definition JSON :: "nat \<Rightarrow> (string \<rightharpoonup> json_val) \<Rightarrow> Context \<Rightarrow> Context" where
  "JSON code body c = c\<lparr>resp_Status := Some code, resp_Body := body\<rparr>"

fun run_chain :: "(Context \<Rightarrow> Context) list \<Rightarrow> Context \<Rightarrow> Context" where
  "run_chain [] c = c"
| "run_chain (h # hs) c = (let c' = h c in if aborted c' then c' else run_chain hs c')"

definition ContextKeyUserId :: string where "ContextKeyUserId = ''user_id''"
definition ContextKeyUserRole :: string where "ContextKeyUserRole = ''user_role''"

definition GetUserId :: "Context \<Rightarrow> int" where
  "GetUserId c = GetInt c ContextKeyUserId"

definition GetUserRole :: "Context \<Rightarrow> string" where
  "GetUserRole c = GetString c ContextKeyUserRole"

definition SetUserId :: "int \<Rightarrow> Context \<Rightarrow> Context" where
  "SetUserId userId c = Set ContextKeyUserId (IntValue userId) c"

definition SetUserRole :: "string \<Rightarrow> Context \<Rightarrow> Context" where
  "SetUserRole role c = Set ContextKeyUserRole (StringValue role) c"

definition responseError :: "nat \<Rightarrow> string \<Rightarrow> json_val option \<Rightarrow> Context \<Rightarrow> Context" where
  "responseError code msg data c =
     (let response = [''message'' \<mapsto> JString msg];
          response' = (case data of None \<Rightarrow> response | Some d \<Rightarrow> response(''data'' \<mapsto> d))
      in AbortWithStatusJSON code response' c)"

datatype bind_error = ValidationErrors "string list" | BindingError string

definition HandleBindingError :: "bind_error \<Rightarrow> Context \<Rightarrow> Context" where
  "HandleBindingError err c =
     (case err of
        ValidationErrors messages \<Rightarrow>
          responseError 400 ''invalid request format'' (Some (JStrings messages)) c
      | BindingError msg \<Rightarrow> responseError 400 ''invalid request format'' (Some (JString msg)) c)"

definition HandleValidationError :: "string \<Rightarrow> Context \<Rightarrow> Context" where
  "HandleValidationError message c = responseError 400 message None c"

definition HandleDomainError :: "domain_error \<Rightarrow> Context \<Rightarrow> Context" where
  "HandleDomainError err c = responseError (HTTPStatus err) (domain_Error err) None c"

section \<open>Access policy middleware (internal/app/server/middleware/auth/auth.go)\<close>

definition authorizationHeader :: string where "authorizationHeader = ''Authorization''"
definition bearerPrefix :: string where "bearerPrefix = ''Bearer ''"

record Middleware =
  jwtValidator :: "string \<Rightarrow> go_error + Claims"

definition RequireAuth :: "Middleware \<Rightarrow> Context \<Rightarrow> Context" where
  "RequireAuth m c0 =
     (let c = Header ''Vary'' authorizationHeader c0;
          authHeader = GetHeader c authorizationHeader
      in if authHeader = [] then
           AbortWithStatusJSON 401 [''message'' \<mapsto> JString ''authorization header is required''] c
         else if \<not> HasPrefix authHeader bearerPrefix then
           AbortWithStatusJSON 401 [''message'' \<mapsto> JString ''invalid authorization header format''] c
         else
           (let tokenString = TrimPrefix authHeader bearerPrefix
            in if tokenString = [] then
                 AbortWithStatusJSON 401 [''message'' \<mapsto> JString ''token is required''] c
               else
                 (case jwtValidator m tokenString of
                    Inl err \<Rightarrow>
                      AbortWithStatusJSON 401
                        [''message'' \<mapsto> JString ''invalid token'', ''data'' \<mapsto> JString (Error err)] c
                  | Inr claims \<Rightarrow> SetUserRole (c_Role claims) (SetUserId (c_UserId claims) c))))"

definition RequireRole :: "string list \<Rightarrow> Context \<Rightarrow> Context" where
  "RequireRole allowedRoles c =
     (let userRole = GetUserRole c
      in if userRole \<in> set allowedRoles then c
         else AbortWithStatusJSON 403 [''message'' \<mapsto> JString ''insufficient permissions''] c)"

definition RequireAdmin :: "Context \<Rightarrow> Context" where
  "RequireAdmin = RequireRole [RoleAdmin]"

definition RequireAdminOrSelf :: "string \<Rightarrow> Context \<Rightarrow> Context" where
  "RequireAdminOrSelf paramName c =
     (let userRole = GetUserRole c;
          userId = GetUserId c
      in if userRole = RoleAdmin then c
         else
           (let paramId = Param c paramName
            in if paramId \<noteq> [] \<and> paramId = string_of_rune (rune_of_int userId) then c
               else AbortWithStatusJSON 403 [''message'' \<mapsto> JString ''insufficient permissions''] c))"

section \<open>Change-password handler (handler/user/dto.go, handler/user/handler.go)\<close>

record ChangePasswordRequest =
  cpr_CurrentPassword :: string
  cpr_NewPassword :: string

definition Validate :: "ChangePasswordRequest \<Rightarrow> go_error option" where
  "Validate r =
     (if cpr_CurrentPassword r = cpr_NewPassword r
      then Some (ErrorString ''new password must be different from current password'')
      else None)"

text \<open>
  \<open>strconv.Atoi\<close> is a parameter. So is the outcome \<open>bound\<close> of
  \<open>c.ShouldBindJSON(&req)\<close>, which depends on the request body and on gin's binding
  rules: an error, or the request structure that was filled in.
\<close>

definition Handler_ChangePassword ::
  "'s Service \<Rightarrow> (string \<Rightarrow> go_error + int) \<Rightarrow> bind_error + ChangePasswordRequest \<Rightarrow>
   Context \<Rightarrow> 's world \<Rightarrow> Context \<times> 's world" where
  "Handler_ChangePassword svc Atoi bound c w =
     (case Atoi (Param c ''id'') of
        Inl err \<Rightarrow> (HandleValidationError ''invalid user id'' c, w)
      | Inr userId \<Rightarrow>
          (case bound of
             Inl err \<Rightarrow> (HandleBindingError err c, w)
           | Inr req \<Rightarrow>
               (case Validate req of
                  Some err \<Rightarrow> (HandleValidationError (Error err) c, w)
                | None \<Rightarrow>
                    (case ChangePassword svc
                            \<lparr>cpi_UserId = userId, cpi_CurrentPassword = cpr_CurrentPassword req,
                             cpi_NewPassword = cpr_NewPassword req\<rparr> w of
                       (Some err, w1) \<Rightarrow> (HandleDomainError err c, w1)
                     | (None, w1) \<Rightarrow>
                         (JSON 200 [''message'' \<mapsto> JString ''password changed successfully''] c,
                          w1)))))"

section \<open>Test doubles\<close>

text \<open>
  Collaborators for concrete runs, in the manner of the mocks of the repository's tests:
  a repository that keeps its users in a list and reports with the error values of
  package \<open>repository\<close>, a hasher that marks the password instead of hashing it, and a
  repository whose existence check answers from a stale view (the race that the
  uniqueness constraint of the storage closes).
\<close>

definition mem_repo :: "User list IUserRepository" where
  "mem_repo =
     \<lparr>repo_InsertUser = (\<lambda>u s.
        if list_ex (\<lambda>v. u_Email v = u_Email u) s then (Inl repository_ErrDuplicateEmail, s)
        else (Inr (int (length s) + 1), s @ [u\<lparr>u_Id := int (length s) + 1\<rparr>])),
      repo_GetUserById = (\<lambda>i s.
        (case find (\<lambda>v. u_Id v = i) s of None \<Rightarrow> Inl repository_ErrUserNotFound | Some v \<Rightarrow> Inr v, s)),
      repo_GetUserByEmail = (\<lambda>e s.
        (case find (\<lambda>v. u_Email v = e) s of None \<Rightarrow> Inl repository_ErrUserNotFound | Some v \<Rightarrow> Inr v, s)),
      repo_ExistsUserByEmail = (\<lambda>e s. (Inr (list_ex (\<lambda>v. u_Email v = e) s), s)),
      repo_UpdateUser = (\<lambda>u s.
        if list_ex (\<lambda>v. u_Id v = u_Id u) s
        then (None, map (\<lambda>v. if u_Id v = u_Id u then u else v) s)
        else (Some repository_ErrUserNotFound, s)),
      repo_UpdateUserPassword = (\<lambda>i h s.
        if list_ex (\<lambda>v. u_Id v = i) s
        then (None, map (\<lambda>v. if u_Id v = i then v\<lparr>u_Password := h\<rparr> else v) s)
        else (Some repository_ErrUserNotFound, s))\<rparr>"

definition mem_hasher :: "User list IPasswordHasher" where
  "mem_hasher =
     \<lparr>hasher_Hash = (\<lambda>p s. (Inr (''h:'' @ p), s)),
      hasher_Compare = (\<lambda>h p s.
        (if h = ''h:'' @ p then None else Some (ErrorString ''mismatch''), s))\<rparr>"

definition mem_service :: "User list Service" where
  "mem_service = \<lparr>userRepo = mem_repo, passwordHasher = mem_hasher\<rparr>"

definition stale_service :: "User list Service" where
  "stale_service =
     \<lparr>userRepo = mem_repo\<lparr>repo_ExistsUserByEmail := (\<lambda>e s. (Inr False, s))\<rparr>,
      passwordHasher = mem_hasher\<rparr>"

text \<open>
  A database for the PostgreSQL repository: a list of rows with a unique email column,
  and one whose existence query answers from a stale view.
\<close>

definition mem_db :: "User list sql_DB" where
  "mem_db =
     \<lparr>db_insert_user = (\<lambda>u s.
        if list_ex (\<lambda>v. u_Email v = u_Email u) s
        then (Inl (ErrorString ''ERROR: duplicate key value violates unique constraint (SQLSTATE 23505)''), s)
        else (Inr (int (length s) + 1), s @ [u\<lparr>u_Id := int (length s) + 1\<rparr>])),
      db_select_user_by_id = (\<lambda>i s.
        (case find (\<lambda>v. u_Id v = i) s of None \<Rightarrow> Inl sql_ErrNoRows | Some v \<Rightarrow> Inr v, s)),
      db_select_user_by_email = (\<lambda>e s.
        (case find (\<lambda>v. u_Email v = e) s of None \<Rightarrow> Inl sql_ErrNoRows | Some v \<Rightarrow> Inr v, s)),
      db_select_exists_email = (\<lambda>e s. (Inr (list_ex (\<lambda>v. u_Email v = e) s), s)),
      db_update_user = (\<lambda>u s.
        (Inr (Inr (int (length (filter (\<lambda>v. u_Id v = u_Id u) s)))),
         map (\<lambda>v. if u_Id v = u_Id u
                  then u\<lparr>u_Password := u_Password v, u_CreatedAt := u_CreatedAt v\<rparr> else v) s)),
      db_update_password = (\<lambda>i h s.
        (Inr (Inr (int (length (filter (\<lambda>v. u_Id v = i) s)))),
         map (\<lambda>v. if u_Id v = i then v\<lparr>u_Password := h\<rparr> else v) s))\<rparr>"

definition pg_service :: "User list Service" where
  "pg_service = \<lparr>userRepo = Repository mem_db, passwordHasher = mem_hasher\<rparr>"

definition pg_stale_service :: "User list Service" where
  "pg_stale_service =
     \<lparr>userRepo = Repository (mem_db\<lparr>db_select_exists_email := (\<lambda>e s. (Inr False, s))\<rparr>),
      passwordHasher = mem_hasher\<rparr>"

definition alice :: User where
  "alice = \<lparr>u_Id = 1, u_Email = ''a@x.io'', u_Username = ''alice'', u_Password = ''h:pw-alice'',
            u_Name = ''Alice'', u_Role = ''user'', u_IsActive = True,
            u_CreatedAt = 0, u_UpdatedAt = 0\<rparr>"

definition bob :: User where
  "bob = \<lparr>u_Id = 2, u_Email = ''b@x.io'', u_Username = ''bob'', u_Password = ''h:pw-bob'',
          u_Name = ''Bob'', u_Role = ''viewer'', u_IsActive = False,
          u_CreatedAt = 0, u_UpdatedAt = 0\<rparr>"

definition new_alice :: CreateUserInput where
  "new_alice = \<lparr>cui_Email = ''a@x.io'', cui_Username = ''alice2'', cui_Password = ''pw-alice2'',
                cui_Name = ''Alice'', cui_Role = ''user''\<rparr>"

definition same_alice :: UpdateUserInput where
  "same_alice = \<lparr>uui_Id = 1, uui_Email = Some ''a@x.io'', uui_Username = None,
                 uui_Name = Some ''Alice'', uui_Role = Some ''user'', uui_IsActive = None\<rparr>"

definition atoi_double :: "string \<Rightarrow> go_error + int" where
  "atoi_double s =
     (if s = ''1'' then Inr 1 else if s = ''7'' then Inr 7 else if s = ''8'' then Inr 8
      else Inl (ErrorString ''strconv.Atoi: invalid syntax''))"

definition ctx_of :: "string \<Rightarrow> (string \<times> string) list \<Rightarrow> Context" where
  "ctx_of auth params =
     \<lparr>req_Header = (\<lambda>k. if k = ''Authorization'' then auth else []),
      req_Params = params, Keys = Map.empty, resp_Header = Map.empty,
      resp_Status = None, resp_Body = Map.empty, aborted = False\<rparr>"

definition validator_double :: Middleware where
  "validator_double =
     \<lparr>jwtValidator = (\<lambda>t.
        if t = ''token-of-7'' then Inr \<lparr>c_UserId = 7, c_Role = ''user''\<rparr>
        else if t = ''token-of-55'' then Inr \<lparr>c_UserId = 55, c_Role = ''user''\<rparr>
        else if t = ''token-of-admin'' then Inr \<lparr>c_UserId = 1, c_Role = ''admin''\<rparr>
        else Inl ErrInvalidToken)\<rparr>"

definition Second :: int where
  "Second = 1000000000"

text \<open>
  A stand-in for the JWT library: numeric dates are whole seconds (the precision of
  \<open>jwt.NewNumericDate\<close>), the token of a key is the key itself, and a token verifies under
  a key, and is accepted by a parse, exactly when it is that key. It carries no claims;
  it only shows that the assumptions made on the library can be met.
\<close>

definition stub_token :: Token where
  "stub_token =
     \<lparr>tk_Method = SigningMethodHMAC ''HS256'',
      tk_Claims = CustomClaimsPtr \<lparr>cc_UserId = 0, cc_Role = [], cc_Issuer = [],
                                   cc_IssuedAt = None, cc_ExpiresAt = None\<rparr>,
      tk_Valid = False\<rparr>"

definition stub_jwt :: jwt_lib where
  "stub_jwt =
     \<lparr>NewNumericDate = (\<lambda>t. t - t mod Second),
      SignedString = (\<lambda>key claims. Inr key),
      ParseWithClaims = (\<lambda>now tok kf.
        case kf stub_token of
          Inl e \<Rightarrow> ParseError (Some stub_token) [ErrTokenUnverifiable, ErrKeyfunc e]
        | Inr key \<Rightarrow>
            if key = tok then ParseOK (stub_token\<lparr>tk_Valid := True\<rparr>)
            else ParseError (Some stub_token) [ErrTokenSignatureInvalid]),
      Verify = (\<lambda>key tok. key = tok)\<rparr>"

definition calls_of :: "'a \<times> 's world \<Rightarrow> event list" where
  "calls_of r = snd (snd r)"

section \<open>Credential hasher: the cost that is used\<close>

text \<open>
  C9. The constructor has no failure result. A configured cost below the primitive's
  minimum or above its maximum is replaced by the primitive's default cost; a cost within
  the range is used as it is.
\<close>

theorem NewPasswordHasher_cost:
  "(c < MinCost b \<or> MaxCost b < c \<longrightarrow> cost (NewPasswordHasher b c) = DefaultCost b) \<and>
   (MinCost b \<le> c \<and> c \<le> MaxCost b \<longrightarrow> cost (NewPasswordHasher b c) = c)"
  by (simp add: NewPasswordHasher_def)

theorem NewPasswordHasher_cost_witness:
  "cost (NewPasswordHasher \<lparr>MinCost = 4, MaxCost = 31, DefaultCost = 10\<rparr> 3) = 10 \<and>
   cost (NewPasswordHasher \<lparr>MinCost = 4, MaxCost = 31, DefaultCost = 10\<rparr> 32) = 10 \<and>
   cost (NewPasswordHasher \<lparr>MinCost = 4, MaxCost = 31, DefaultCost = 10\<rparr> 12) = 12"
  using NewPasswordHasher_cost [of 3 "\<lparr>MinCost = 4, MaxCost = 31, DefaultCost = 10\<rparr>"]
        NewPasswordHasher_cost [of 32 "\<lparr>MinCost = 4, MaxCost = 31, DefaultCost = 10\<rparr>"]
        NewPasswordHasher_cost [of 12 "\<lparr>MinCost = 4, MaxCost = 31, DefaultCost = 10\<rparr>"]
  by simp

section \<open>Account service\<close>

lemmas call_defs = call_InsertUser_def call_GetUserById_def call_GetUserByEmail_def
  call_ExistsUserByEmail_def call_UpdateUser_def call_UpdateUserPassword_def
  call_Hash_def call_Compare_def

lemmas mem_defs = mem_service_def stale_service_def mem_repo_def mem_hasher_def
  alice_def bob_def

lemmas pg_defs = pg_service_def pg_stale_service_def Repository_def Repository_InsertUser_def
  Repository_GetUserById_def Repository_GetUserByEmail_def Repository_ExistsUserByEmail_def
  Repository_UpdateUser_def Repository_UpdateUserPassword_def mem_db_def mem_hasher_def

text \<open>
  The service is first taken by itself, against any repository that reports an absent
  account with \<open>repository.ErrUserNotFound\<close> and a taken email with
  \<open>repository.ErrDuplicateEmail\<close>, and then together with the PostgreSQL repository
  that the server is built with.
\<close>

subsection \<open>Login\<close>

lemma Login_not_found:
  assumes "repo_GetUserByEmail (userRepo svc) (li_Email input) (fst w) = (Inl err, s1)"
    and "errors_Is err repository_ErrUserNotFound"
  shows "fst (Login svc input w) = Inl InvalidCredentialsError"
  using assms by (simp add: Login_def call_GetUserByEmail_def)

lemma Login_inactive:
  assumes "repo_GetUserByEmail (userRepo svc) (li_Email input) (fst w) = (Inr u, s1)"
    and "\<not> u_IsActive u"
  shows "fst (Login svc input w) = Inl InvalidCredentialsError"
  using assms by (simp add: Login_def call_GetUserByEmail_def)

lemma Login_wrong_password:
  assumes "repo_GetUserByEmail (userRepo svc) (li_Email input) (fst w) = (Inr u, s1)"
    and "u_IsActive u"
    and "hasher_Compare (passwordHasher svc) (u_Password u) (li_Password input) s1 = (Some err, s2)"
  shows "fst (Login svc input w) = Inl InvalidCredentialsError"
  using assms by (simp add: Login_def call_GetUserByEmail_def call_Compare_def)

text \<open>
  Three login requests, each against its own collaborators: for the first the repository
  answers the email with an error that matches \<open>repository.ErrUserNotFound\<close>, for the
  second it answers with an inactive account, for the third with an active account whose
  stored digest the hasher does not accept for the password supplied. All three return
  the same value \<open>InvalidCredentialsError\<close>, which has no field.
\<close>

theorem Login_failures_identical:
  assumes absent: "repo_GetUserByEmail (userRepo svc1) (li_Email in1) (fst w1) = (Inl err1, s1)"
      "errors_Is err1 repository_ErrUserNotFound"
    and inactive: "repo_GetUserByEmail (userRepo svc2) (li_Email in2) (fst w2) = (Inr u2, s2)"
      "\<not> u_IsActive u2"
    and wrong: "repo_GetUserByEmail (userRepo svc3) (li_Email in3) (fst w3) = (Inr u3, s3)"
      "u_IsActive u3"
      "hasher_Compare (passwordHasher svc3) (u_Password u3) (li_Password in3) s3 = (Some err3, s3')"
  shows "fst (Login svc1 in1 w1) = Inl InvalidCredentialsError \<and>
         fst (Login svc2 in2 w2) = Inl InvalidCredentialsError \<and>
         fst (Login svc3 in3 w3) = Inl InvalidCredentialsError"
  using Login_not_found [OF absent] Login_inactive [OF inactive] Login_wrong_password [OF wrong]
  by simp

theorem Login_failures_identical_witness:
  "fst (Login mem_service \<lparr>li_Email = ''nobody@x.io'', li_Password = ''pw''\<rparr> ([alice, bob], []))
     = Inl InvalidCredentialsError \<and>
   fst (Login mem_service \<lparr>li_Email = ''b@x.io'', li_Password = ''pw-bob''\<rparr> ([alice, bob], []))
     = Inl InvalidCredentialsError \<and>
   fst (Login mem_service \<lparr>li_Email = ''a@x.io'', li_Password = ''guess''\<rparr> ([alice, bob], []))
     = Inl InvalidCredentialsError"
proof -
  have a1: "repo_GetUserByEmail (userRepo mem_service)
              (li_Email \<lparr>li_Email = ''nobody@x.io'', li_Password = ''pw''\<rparr>)
              (fst ([alice, bob], []::event list)) = (Inl repository_ErrUserNotFound, [alice, bob])"
    by (simp add: mem_defs)
  have a2: "errors_Is repository_ErrUserNotFound repository_ErrUserNotFound"
    by simp
  have b1: "repo_GetUserByEmail (userRepo mem_service)
              (li_Email \<lparr>li_Email = ''b@x.io'', li_Password = ''pw-bob''\<rparr>)
              (fst ([alice, bob], []::event list)) = (Inr bob, [alice, bob])"
    by (simp add: mem_defs)
  have b2: "\<not> u_IsActive bob"
    by (simp add: bob_def)
  have c1: "repo_GetUserByEmail (userRepo mem_service)
              (li_Email \<lparr>li_Email = ''a@x.io'', li_Password = ''guess''\<rparr>)
              (fst ([alice, bob], []::event list)) = (Inr alice, [alice, bob])"
    by (simp add: mem_defs)
  have c2: "u_IsActive alice"
    by (simp add: alice_def)
  have c3: "hasher_Compare (passwordHasher mem_service) (u_Password alice)
              (li_Password \<lparr>li_Email = ''a@x.io'', li_Password = ''guess''\<rparr>) [alice, bob]
            = (Some (ErrorString ''mismatch''), [alice, bob])"
    by (simp add: mem_defs)
  show ?thesis
    using Login_failures_identical [OF a1 a2 b1 b2 c1 c2 c3] by simp
qed

text \<open>Any other error of the repository is passed on as an internal fault.\<close>

lemma Login_other_error:
  assumes "repo_GetUserByEmail (userRepo svc) (li_Email input) (fst w) = (Inl err, s1)"
    and "\<not> errors_Is err repository_ErrUserNotFound"
  shows "fst (Login svc input w) = Inl (InternalServerError ''failed to get user'' (Some err))"
  using assms by (simp add: Login_def call_GetUserByEmail_def)

lemma Repository_GetUserByEmail_no_rows:
  assumes "db_select_user_by_email db email s = (Inl err, s1)"
    and "errors_Is err sql_ErrNoRows"
  shows "repo_GetUserByEmail (Repository db) email s = (Inl postgres_ErrNoUser, s1)"
  using assms by (simp add: Repository_def Repository_GetUserByEmail_def)

lemma Login_postgres_no_rows:
  assumes "db_select_user_by_email db (li_Email input) (fst w) = (Inl err, s1)"
    and "errors_Is err sql_ErrNoRows"
  shows "fst (Login \<lparr>userRepo = Repository db, passwordHasher = h\<rparr> input w)
           = Inl (InternalServerError ''failed to get user'' (Some postgres_ErrNoUser))"
  using Login_other_error
          [of "\<lparr>userRepo = Repository db, passwordHasher = h\<rparr>" input w postgres_ErrNoUser s1]
    Repository_GetUserByEmail_no_rows [OF assms]
  by simp

text \<open>
  C2. The service over the PostgreSQL repository, with an active and an inactive account
  stored, on the input of the repository's test \<open>TestLogin_UserNotFound\<close>. The login for
  an email that is not stored returns \<open>InternalServerError\<close> with status 500 and the
  message "failed to get user: user not found"; the login for the inactive account and
  the login with a wrong password return \<open>InvalidCredentialsError\<close> with status 401. So
  the three failures do not return the same error: \<open>Repository.GetUserByEmail\<close> reports
  the absent row with \<open>postgres.ErrNoUser\<close>, and \<open>Login\<close> matches the error against
  \<open>repository.ErrUserNotFound\<close>, which is another value.
\<close>

theorem Login_unknown_email_internal_error:
  "fst (Login pg_service
          \<lparr>li_Email = ''nonexistent@example.com'', li_Password = ''password123''\<rparr>
          ([alice, bob], []))
     = Inl (InternalServerError ''failed to get user'' (Some postgres_ErrNoUser)) \<and>
   HTTPStatus (InternalServerError ''failed to get user'' (Some postgres_ErrNoUser)) = 500 \<and>
   domain_Error (InternalServerError ''failed to get user'' (Some postgres_ErrNoUser))
     = ''failed to get user: user not found'' \<and>
   fst (Login pg_service \<lparr>li_Email = ''b@x.io'', li_Password = ''pw-bob''\<rparr> ([alice, bob], []))
     = Inl InvalidCredentialsError \<and>
   fst (Login pg_service \<lparr>li_Email = ''a@x.io'', li_Password = ''guess''\<rparr> ([alice, bob], []))
     = Inl InvalidCredentialsError \<and>
   HTTPStatus InvalidCredentialsError = 401"
  by (simp add: Login_def call_GetUserByEmail_def call_Compare_def pg_defs alice_def bob_def)

subsection \<open>ChangePassword for an absent account\<close>

lemma ChangePassword_not_found:
  assumes "repo_GetUserById (userRepo svc) (cpi_UserId input) (fst w) = (Inl err, s1)"
    and "errors_Is err repository_ErrUserNotFound"
  shows "fst (ChangePassword svc input w) = Some (UserNotFoundError (cpi_UserId input) [])"
  using assms by (simp add: ChangePassword_def call_GetUserById_def)

text \<open>
  When the repository answers the target id of a change-password request with an error
  that matches \<open>repository.ErrUserNotFound\<close>, the service returns \<open>UserNotFoundError\<close>
  with that id, whose status is 404, and not \<open>InvalidCredentialsError\<close>. A login for an
  email that the repository answers in the same way returns \<open>InvalidCredentialsError\<close>,
  whose status is 401.
\<close>

theorem ChangePassword_reveals_absence:
  assumes "repo_GetUserById (userRepo svc) (cpi_UserId input) (fst w) = (Inl err, s1)"
    and "errors_Is err repository_ErrUserNotFound"
    and "repo_GetUserByEmail (userRepo svc') (li_Email input') (fst w') = (Inl err', s1')"
    and "errors_Is err' repository_ErrUserNotFound"
  shows "fst (ChangePassword svc input w) = Some (UserNotFoundError (cpi_UserId input) []) \<and>
         HTTPStatus (UserNotFoundError (cpi_UserId input) []) = 404 \<and>
         fst (ChangePassword svc input w) \<noteq> Some InvalidCredentialsError \<and>
         fst (Login svc' input' w') = Inl InvalidCredentialsError \<and>
         HTTPStatus InvalidCredentialsError = 401"
  using ChangePassword_not_found [OF assms(1,2)] Login_not_found [OF assms(3,4)] by simp

theorem ChangePassword_reveals_absence_witness:
  "fst (ChangePassword mem_service
          \<lparr>cpi_UserId = 9, cpi_CurrentPassword = ''pw'', cpi_NewPassword = ''new-pw-1''\<rparr>
          ([alice, bob], [])) = Some (UserNotFoundError 9 []) \<and>
   fst (Login mem_service \<lparr>li_Email = ''nobody@x.io'', li_Password = ''pw''\<rparr> ([alice, bob], []))
     = Inl InvalidCredentialsError"
proof -
  have a1: "repo_GetUserById (userRepo mem_service)
              (cpi_UserId \<lparr>cpi_UserId = 9, cpi_CurrentPassword = ''pw'',
                           cpi_NewPassword = ''new-pw-1''\<rparr>)
              (fst ([alice, bob], []::event list)) = (Inl repository_ErrUserNotFound, [alice, bob])"
    by (simp add: mem_defs)
  have a2: "errors_Is repository_ErrUserNotFound repository_ErrUserNotFound"
    by simp
  have b1: "repo_GetUserByEmail (userRepo mem_service)
              (li_Email \<lparr>li_Email = ''nobody@x.io'', li_Password = ''pw''\<rparr>)
              (fst ([alice, bob], []::event list)) = (Inl repository_ErrUserNotFound, [alice, bob])"
    by (simp add: mem_defs)
  show ?thesis
    using ChangePassword_reveals_absence [OF a1 a2 b1 a2] by simp
qed

text \<open>
  C10. The service over the PostgreSQL repository: a change-password request for the id
  999, which has no row, returns \<open>InternalServerError\<close> with status 500, not
  \<open>UserNotFoundError\<close> (status 404). \<open>Repository.GetUserById\<close> reports the absent row
  with \<open>postgres.ErrNoUser\<close>, and \<open>ChangePassword\<close> matches the error against
  \<open>repository.ErrUserNotFound\<close>.
\<close>

theorem ChangePassword_absent_id_internal_error:
  "fst (ChangePassword pg_service
          \<lparr>cpi_UserId = 999, cpi_CurrentPassword = ''oldpassword'',
           cpi_NewPassword = ''newpassword123''\<rparr>
          ([alice, bob], []))
     = Some (InternalServerError ''failed to get user'' (Some postgres_ErrNoUser)) \<and>
   HTTPStatus (InternalServerError ''failed to get user'' (Some postgres_ErrNoUser)) = 500 \<and>
   HTTPStatus (UserNotFoundError 999 []) = 404"
  by (simp add: ChangePassword_def call_GetUserById_def pg_defs alice_def bob_def)

subsection \<open>CreateUser for an email that is taken\<close>

text \<open>
  A run of \<open>CreateUser\<close> from an empty call log. If the log of the run holds the
  existence check for the request's email with the answer \<open>true\<close>, the run returns
  \<open>UserAlreadyExistsError\<close> for that email and its log holds no call of \<open>InsertUser\<close>.
  If the log holds a call of \<open>InsertUser\<close> that answered with an error matching
  \<open>repository.ErrDuplicateEmail\<close>, the run returns the same \<open>UserAlreadyExistsError\<close>.
  (The existence check is reached only by a request whose role is valid;
  \<open>InvalidRoleError\<close> is returned before storage is consulted.)
\<close>

theorem CreateUser_already_exists:
  "(CallExistsUserByEmail (cui_Email input) (Inr True) \<in> set (calls_of (CreateUser svc input (s, [])))
      \<longrightarrow> fst (CreateUser svc input (s, [])) = Inl (UserAlreadyExistsError (cui_Email input)) \<and>
          \<not> list_ex is_InsertUser (calls_of (CreateUser svc input (s, [])))) \<and>
   (\<forall>u err. CallInsertUser u (Inl err) \<in> set (calls_of (CreateUser svc input (s, []))) \<and>
             errors_Is err repository_ErrDuplicateEmail
      \<longrightarrow> fst (CreateUser svc input (s, [])) = Inl (UserAlreadyExistsError (cui_Email input)))"
  by (auto simp add: CreateUser_def calls_of_def call_defs is_InsertUser_def Let_def
      split: prod.splits sum.splits if_splits)

lemma CreateUser_mem_run:
  "CreateUser mem_service new_alice ([alice, bob], []) =
     (Inl (UserAlreadyExistsError ''a@x.io''),
      ([alice, bob], [CallExistsUserByEmail ''a@x.io'' (Inr True)]))"
  by (simp add: CreateUser_def call_defs mem_defs new_alice_def IsValidRole_def
      RoleAdmin_def RoleUser_def RoleViewer_def)

lemma CreateUser_stale_run:
  "calls_of (CreateUser stale_service new_alice ([alice], [])) =
     [CallExistsUserByEmail ''a@x.io'' (Inr False),
      CallHash ''pw-alice2'' (Inr ''h:pw-alice2''),
      CallInsertUser
        \<lparr>u_Id = 0, u_Email = ''a@x.io'', u_Username = ''alice2'', u_Password = ''h:pw-alice2'',
         u_Name = ''Alice'', u_Role = ''user'', u_IsActive = True,
         u_CreatedAt = 0, u_UpdatedAt = 0\<rparr>
        (Inl repository_ErrDuplicateEmail)]"
  by (simp add: CreateUser_def call_defs mem_defs new_alice_def IsValidRole_def
      RoleAdmin_def RoleUser_def RoleViewer_def calls_of_def)

theorem CreateUser_already_exists_witness:
  "fst (CreateUser mem_service new_alice ([alice, bob], []))
     = Inl (UserAlreadyExistsError ''a@x.io'') \<and>
   \<not> list_ex is_InsertUser (calls_of (CreateUser mem_service new_alice ([alice, bob], []))) \<and>
   fst (CreateUser stale_service new_alice ([alice], []))
     = Inl (UserAlreadyExistsError ''a@x.io'')"
proof -
  have e: "cui_Email new_alice = ''a@x.io''"
    by (simp add: new_alice_def)
  have h1: "CallExistsUserByEmail (cui_Email new_alice) (Inr True)
              \<in> set (calls_of (CreateUser mem_service new_alice ([alice, bob], [])))"
    by (simp add: CreateUser_mem_run calls_of_def e)
  have h2: "CallInsertUser
              \<lparr>u_Id = 0, u_Email = ''a@x.io'', u_Username = ''alice2'',
               u_Password = ''h:pw-alice2'', u_Name = ''Alice'', u_Role = ''user'',
               u_IsActive = True, u_CreatedAt = 0, u_UpdatedAt = 0\<rparr>
              (Inl repository_ErrDuplicateEmail)
              \<in> set (calls_of (CreateUser stale_service new_alice ([alice], []))) \<and>
            errors_Is repository_ErrDuplicateEmail repository_ErrDuplicateEmail"
    by (simp add: CreateUser_stale_run)
  from CreateUser_already_exists [of new_alice mem_service "[alice, bob]"] h1
  have p1: "fst (CreateUser mem_service new_alice ([alice, bob], []))
              = Inl (UserAlreadyExistsError ''a@x.io'') \<and>
            \<not> list_ex is_InsertUser (calls_of (CreateUser mem_service new_alice ([alice, bob], [])))"
    by (simp add: e)
  from CreateUser_already_exists [of new_alice stale_service "[alice]"] h2
  have p2: "fst (CreateUser stale_service new_alice ([alice], []))
              = Inl (UserAlreadyExistsError ''a@x.io'')"
    unfolding e by blast
  from p1 p2 show ?thesis by simp
qed

text \<open>
  Over the PostgreSQL repository the existence check that answers \<open>true\<close> is handled as
  above: already-exists, and no insert.
\<close>

lemma CreateUser_postgres_exists:
  "CreateUser pg_service new_alice ([alice, bob], []) =
     (Inl (UserAlreadyExistsError ''a@x.io''),
      ([alice, bob], [CallExistsUserByEmail ''a@x.io'' (Inr True)]))"
  by (simp add: CreateUser_def call_ExistsUserByEmail_def call_Hash_def call_InsertUser_def
      pg_defs alice_def bob_def new_alice_def IsValidRole_def RoleAdmin_def RoleUser_def
      RoleViewer_def)

text \<open>
  C5. The service over the PostgreSQL repository, in the race that the uniqueness
  constraint closes: the existence check answers \<open>false\<close> for an email that is stored by
  the time of the insert. The insert reports the duplicate, as \<open>postgres.ErrDuplicateEmail\<close>;
  \<open>CreateUser\<close> matches the error against \<open>repository.ErrDuplicateEmail\<close> and returns
  \<open>InternalServerError\<close> with status 500, not \<open>UserAlreadyExistsError\<close>.
\<close>

theorem CreateUser_duplicate_insert_internal_error:
  "CreateUser pg_stale_service new_alice ([alice], []) =
     (Inl (InternalServerError ''failed to create user'' (Some postgres_ErrDuplicateEmail)),
      ([alice],
       [CallExistsUserByEmail ''a@x.io'' (Inr False),
        CallHash ''pw-alice2'' (Inr ''h:pw-alice2''),
        CallInsertUser
          \<lparr>u_Id = 0, u_Email = ''a@x.io'', u_Username = ''alice2'', u_Password = ''h:pw-alice2'',
           u_Name = ''Alice'', u_Role = ''user'', u_IsActive = True,
           u_CreatedAt = 0, u_UpdatedAt = 0\<rparr>
          (Inl postgres_ErrDuplicateEmail)])) \<and>
   HTTPStatus (InternalServerError ''failed to create user'' (Some postgres_ErrDuplicateEmail))
     = 500"
  by (simp add: CreateUser_def call_ExistsUserByEmail_def call_Hash_def call_InsertUser_def
      pg_defs alice_def new_alice_def IsValidRole_def RoleAdmin_def RoleUser_def RoleViewer_def)

subsection \<open>UpdateUser without a change\<close>

text \<open>
  C6. The repository answers the target id with an account, and every field that the
  request supplies equals the stored one (or is not supplied). Then \<open>UpdateUser\<close> returns
  no error; the fetch by id is the only call it makes, so the storage update is not
  called and the collaborators' state is the one that the fetch left.
\<close>

theorem UpdateUser_no_changes:
  assumes "repo_GetUserById (userRepo svc) (uui_Id input) (fst w) = (Inr user, s1)"
    and "uui_Email input = None \<or> uui_Email input = Some (u_Email user)"
    and "uui_Username input = None \<or> uui_Username input = Some (u_Username user)"
    and "uui_Name input = None \<or> uui_Name input = Some (u_Name user)"
    and "uui_Role input = None \<or> uui_Role input = Some (u_Role user)"
    and "uui_IsActive input = None \<or> uui_IsActive input = Some (u_IsActive user)"
  shows "fst (UpdateUser svc input w) = None \<and>
         snd (UpdateUser svc input w) = (s1, snd w @ [CallGetUserById (uui_Id input) (Inr user)]) \<and>
         filter is_UpdateUser (calls_of (UpdateUser svc input w)) = filter is_UpdateUser (snd w)"
proof -
  have e: "UpdateUser_email svc input (user, False) w' = (Inr (user, False), w')" for w'
    using assms(2) by (auto simp add: UpdateUser_email_def)
  have u: "UpdateUser_username input (user, False) = (user, False)"
    using assms(3) by (auto simp add: UpdateUser_username_def)
  have n: "UpdateUser_name input (user, False) = (user, False)"
    using assms(4) by (auto simp add: UpdateUser_name_def)
  have r: "UpdateUser_role input (user, False) = Inr (user, False)"
    using assms(5) by (auto simp add: UpdateUser_role_def)
  have a: "UpdateUser_isActive input (user, False) = (user, False)"
    using assms(6) by (auto simp add: UpdateUser_isActive_def)
  have "UpdateUser svc input w = (None, (s1, snd w @ [CallGetUserById (uui_Id input) (Inr user)]))"
    using assms(1) by (simp add: UpdateUser_def call_GetUserById_def e u n r a UpdateUser_persist_def)
  then show ?thesis
    by (simp add: calls_of_def is_UpdateUser_def)
qed

theorem UpdateUser_no_changes_witness:
  "UpdateUser pg_service same_alice ([alice, bob], []) =
     (None, ([alice, bob], [CallGetUserById 1 (Inr alice)]))"
proof -
  have g: "repo_GetUserById (userRepo pg_service) (uui_Id same_alice)
             (fst ([alice, bob], []::event list)) = (Inr alice, [alice, bob])"
    by (simp add: pg_defs same_alice_def alice_def bob_def)
  have f: "uui_Email same_alice = Some (u_Email alice)" "uui_Username same_alice = None"
    "uui_Name same_alice = Some (u_Name alice)" "uui_Role same_alice = Some (u_Role alice)"
    "uui_IsActive same_alice = None"
    by (simp_all add: same_alice_def alice_def)
  have i: "uui_Id same_alice = 1"
    by (simp add: same_alice_def)
  from UpdateUser_no_changes [OF g disjI2 [OF f(1)] disjI1 [OF f(2)] disjI2 [OF f(3)]
      disjI2 [OF f(4)] disjI1 [OF f(5)]]
  show ?thesis
    by (simp add: i prod_eq_iff)
qed

section \<open>Change-password handler\<close>

text \<open>
  C8. Whenever binding yields a request, its new password equals its current password
  (a request that does not bind is refused by the binding rules). Then the handler
  answers 400 and aborts, and it returns the collaborators' state and the call log as it
  received them: the service is not entered, so neither \<open>Compare\<close> nor \<open>Hash\<close> is called.
  When the path id parses and the request is bound, the message is the one of
  \<open>Validate\<close>.
\<close>

theorem ChangePassword_same_password_rejected:
  assumes "\<And>req. bound = Inr req \<Longrightarrow> cpr_NewPassword req = cpr_CurrentPassword req"
  shows "resp_Status (fst (Handler_ChangePassword svc Atoi bound c w)) = Some 400 \<and>
         aborted (fst (Handler_ChangePassword svc Atoi bound c w)) \<and>
         snd (Handler_ChangePassword svc Atoi bound c w) = w \<and>
         calls_of (Handler_ChangePassword svc Atoi bound c w) = snd w \<and>
         (\<forall>userId req. Atoi (Param c ''id'') = Inr userId \<and> bound = Inr req \<longrightarrow>
            resp_Body (fst (Handler_ChangePassword svc Atoi bound c w)) ''message''
              = Some (JString ''new password must be different from current password''))"
  using assms
  by (auto simp add: Handler_ChangePassword_def Validate_def HandleValidationError_def
      HandleBindingError_def responseError_def AbortWithStatusJSON_def calls_of_def
      split: sum.splits bind_error.splits)

theorem ChangePassword_same_password_rejected_witness:
  "resp_Status (fst (Handler_ChangePassword pg_service atoi_double
      (Inr \<lparr>cpr_CurrentPassword = ''pw-alice'', cpr_NewPassword = ''pw-alice''\<rparr>)
      (ctx_of ''Bearer tok'' [(''id'', ''1'')]) ([alice, bob], []))) = Some 400 \<and>
   calls_of (Handler_ChangePassword pg_service atoi_double
      (Inr \<lparr>cpr_CurrentPassword = ''pw-alice'', cpr_NewPassword = ''pw-alice''\<rparr>)
      (ctx_of ''Bearer tok'' [(''id'', ''1'')]) ([alice, bob], [])) = [] \<and>
   resp_Body (fst (Handler_ChangePassword pg_service atoi_double
      (Inr \<lparr>cpr_CurrentPassword = ''pw-alice'', cpr_NewPassword = ''pw-alice''\<rparr>)
      (ctx_of ''Bearer tok'' [(''id'', ''1'')]) ([alice, bob], []))) ''message''
     = Some (JString ''new password must be different from current password'')"
proof -
  have a: "atoi_double (Param (ctx_of ''Bearer tok'' [(''id'', ''1'')]) ''id'') = Inr 1"
    by (simp add: atoi_double_def Param_def ctx_of_def)
  have b: "(Inr \<lparr>cpr_CurrentPassword = ''pw-alice'', cpr_NewPassword = ''pw-alice''\<rparr>
              :: bind_error + ChangePasswordRequest) = Inr req
           \<Longrightarrow> cpr_NewPassword req = cpr_CurrentPassword req" for req
    by auto
  from ChangePassword_same_password_rejected
         [of "Inr \<lparr>cpr_CurrentPassword = ''pw-alice'', cpr_NewPassword = ''pw-alice''\<rparr>"
             pg_service atoi_double "ctx_of ''Bearer tok'' [(''id'', ''1'')]"
             "([alice, bob], [])", OF b] a
  show ?thesis by simp
qed

text \<open>
  For comparison, the same request with a new password that differs: the handler enters
  the service, which fetches the account, compares, hashes and stores.
\<close>

lemma ChangePassword_different_password_hashes:
  "calls_of (Handler_ChangePassword pg_service atoi_double
      (Inr \<lparr>cpr_CurrentPassword = ''pw-alice'', cpr_NewPassword = ''pw-alice-2''\<rparr>)
      (ctx_of ''Bearer tok'' [(''id'', ''1'')]) ([alice, bob], [])) =
     [CallGetUserById 1 (Inr alice),
      CallCompare ''h:pw-alice'' ''pw-alice'' None,
      CallHash ''pw-alice-2'' (Inr ''h:pw-alice-2''),
      CallUpdateUserPassword 1 ''h:pw-alice-2'' None]"
  by (simp add: Handler_ChangePassword_def Validate_def ChangePassword_def call_defs
      pg_service_def Repository_def Repository_GetUserById_def
      Repository_UpdateUserPassword_def mem_db_def mem_hasher_def atoi_double_def Param_def
      ctx_of_def calls_of_def JSON_def)
     (simp add: alice_def bob_def)

section \<open>Access policy middleware\<close>

lemmas gin_defs = Header_def GetHeader_def AbortWithStatusJSON_def Set_def GetInt_def
  GetString_def Param_def SetUserId_def SetUserRole_def GetUserId_def GetUserRole_def
  ContextKeyUserId_def ContextKeyUserRole_def

lemmas auth_defs = RequireAuth_def authorizationHeader_def bearerPrefix_def HasPrefix_def
  TrimPrefix_def validator_double_def ctx_of_def

subsection \<open>Authentication gate\<close>

lemma RequireAuth_Vary: "resp_Header (RequireAuth m c) ''Vary'' = Some ''Authorization''"
  by (simp add: RequireAuth_def gin_defs authorizationHeader_def Let_def split: sum.splits)

lemma RequireAuth_missing:
  assumes "GetHeader c authorizationHeader = []"
  shows "RequireAuth m c =
           AbortWithStatusJSON 401 [''message'' \<mapsto> JString ''authorization header is required'']
             (Header ''Vary'' authorizationHeader c)"
  using assms by (simp add: RequireAuth_def gin_defs authorizationHeader_def)

lemma RequireAuth_malformed:
  assumes "GetHeader c authorizationHeader \<noteq> []"
    and "\<not> prefix bearerPrefix (GetHeader c authorizationHeader)"
  shows "RequireAuth m c =
           AbortWithStatusJSON 401 [''message'' \<mapsto> JString ''invalid authorization header format'']
             (Header ''Vary'' authorizationHeader c)"
  using assms by (simp add: RequireAuth_def gin_defs authorizationHeader_def HasPrefix_def)

lemma RequireAuth_empty_token:
  assumes "GetHeader c authorizationHeader = bearerPrefix"
  shows "RequireAuth m c =
           AbortWithStatusJSON 401 [''message'' \<mapsto> JString ''token is required'']
             (Header ''Vary'' authorizationHeader c)"
  using assms
  by (simp add: RequireAuth_def gin_defs authorizationHeader_def HasPrefix_def TrimPrefix_def
      bearerPrefix_def)

lemma RequireAuth_invalid_token:
  assumes "GetHeader c authorizationHeader = bearerPrefix @ t" and "t \<noteq> []"
    and "jwtValidator m t = Inl err"
  shows "RequireAuth m c =
           AbortWithStatusJSON 401
             [''message'' \<mapsto> JString ''invalid token'', ''data'' \<mapsto> JString (Error err)]
             (Header ''Vary'' authorizationHeader c)"
  using assms
  by (simp add: RequireAuth_def gin_defs authorizationHeader_def HasPrefix_def TrimPrefix_def
      bearerPrefix_def)

lemma RequireAuth_valid:
  assumes "GetHeader c authorizationHeader = bearerPrefix @ t" and "t \<noteq> []"
    and "jwtValidator m t = Inr claims"
  shows "RequireAuth m c =
           SetUserRole (c_Role claims)
             (SetUserId (c_UserId claims) (Header ''Vary'' authorizationHeader c))"
  using assms
  by (simp add: RequireAuth_def gin_defs authorizationHeader_def HasPrefix_def TrimPrefix_def
      bearerPrefix_def)

text \<open>
  C7. The credential header is the value that \<open>c.GetHeader("Authorization")\<close> answers; a
  header that is not set reads as the empty string. An empty value is refused with 401
  and "authorization header is required"; a value that is not empty and does not start
  with "Bearer " with 401 and "invalid authorization header format"; the value "Bearer "
  with nothing after it with 401 and "token is required". A value "Bearer " followed by
  a token that the validator accepts leaves the request as it was (not aborted by this
  gate), with the user id and the role of the claims stored in the context. In every
  case the response header Vary is set to Authorization.
\<close>

theorem RequireAuth_outcomes:
  "(GetHeader c authorizationHeader = [] \<longrightarrow>
      aborted (RequireAuth m c) \<and> resp_Status (RequireAuth m c) = Some 401 \<and>
      resp_Body (RequireAuth m c) ''message''
        = Some (JString ''authorization header is required'')) \<and>
   (GetHeader c authorizationHeader \<noteq> [] \<and>
    \<not> prefix bearerPrefix (GetHeader c authorizationHeader) \<longrightarrow>
      aborted (RequireAuth m c) \<and> resp_Status (RequireAuth m c) = Some 401 \<and>
      resp_Body (RequireAuth m c) ''message''
        = Some (JString ''invalid authorization header format'')) \<and>
   (GetHeader c authorizationHeader = bearerPrefix \<longrightarrow>
      aborted (RequireAuth m c) \<and> resp_Status (RequireAuth m c) = Some 401 \<and>
      resp_Body (RequireAuth m c) ''message'' = Some (JString ''token is required'')) \<and>
   (\<forall>t claims. GetHeader c authorizationHeader = bearerPrefix @ t \<and> t \<noteq> [] \<and>
                jwtValidator m t = Inr claims \<longrightarrow>
      aborted (RequireAuth m c) = aborted c \<and> resp_Status (RequireAuth m c) = resp_Status c \<and>
      GetUserId (RequireAuth m c) = c_UserId claims \<and>
      GetUserRole (RequireAuth m c) = c_Role claims) \<and>
   resp_Header (RequireAuth m c) ''Vary'' = Some authorizationHeader"
proof -
  have v: "resp_Header (RequireAuth m c) ''Vary'' = Some authorizationHeader"
    by (simp add: RequireAuth_Vary authorizationHeader_def)
  have a: "GetHeader c authorizationHeader = [] \<Longrightarrow>
      aborted (RequireAuth m c) \<and> resp_Status (RequireAuth m c) = Some 401 \<and>
      resp_Body (RequireAuth m c) ''message''
        = Some (JString ''authorization header is required'')"
    by (simp add: RequireAuth_missing) (simp add: AbortWithStatusJSON_def)
  have b: "GetHeader c authorizationHeader \<noteq> [] \<and>
           \<not> prefix bearerPrefix (GetHeader c authorizationHeader) \<Longrightarrow>
      aborted (RequireAuth m c) \<and> resp_Status (RequireAuth m c) = Some 401 \<and>
      resp_Body (RequireAuth m c) ''message''
        = Some (JString ''invalid authorization header format'')"
    by (simp add: RequireAuth_malformed) (simp add: AbortWithStatusJSON_def)
  have d: "GetHeader c authorizationHeader = bearerPrefix \<Longrightarrow>
      aborted (RequireAuth m c) \<and> resp_Status (RequireAuth m c) = Some 401 \<and>
      resp_Body (RequireAuth m c) ''message'' = Some (JString ''token is required'')"
    by (simp add: RequireAuth_empty_token) (simp add: AbortWithStatusJSON_def)
  have e: "GetHeader c authorizationHeader = bearerPrefix @ t \<and> t \<noteq> [] \<and>
           jwtValidator m t = Inr claims \<Longrightarrow>
      aborted (RequireAuth m c) = aborted c \<and> resp_Status (RequireAuth m c) = resp_Status c \<and>
      GetUserId (RequireAuth m c) = c_UserId claims \<and>
      GetUserRole (RequireAuth m c) = c_Role claims" for t claims
    by (simp add: RequireAuth_valid) (simp add: gin_defs)
  from a b d e v show ?thesis by blast
qed

theorem RequireAuth_outcomes_witness:
  "resp_Body (RequireAuth validator_double (ctx_of [] [])) ''message''
     = Some (JString ''authorization header is required'') \<and>
   resp_Body (RequireAuth validator_double (ctx_of ''Basic xyz'' [])) ''message''
     = Some (JString ''invalid authorization header format'') \<and>
   resp_Body (RequireAuth validator_double (ctx_of ''Bearer '' [])) ''message''
     = Some (JString ''token is required'') \<and>
   \<not> aborted (RequireAuth validator_double (ctx_of ''Bearer token-of-7'' [])) \<and>
   GetUserId (RequireAuth validator_double (ctx_of ''Bearer token-of-7'' [])) = 7 \<and>
   GetUserRole (RequireAuth validator_double (ctx_of ''Bearer token-of-7'' [])) = ''user''"
proof -
  have h1: "GetHeader (ctx_of [] []) authorizationHeader = []"
    by (simp add: GetHeader_def ctx_of_def)
  have h2: "GetHeader (ctx_of ''Basic xyz'' []) authorizationHeader \<noteq> [] \<and>
            \<not> prefix bearerPrefix (GetHeader (ctx_of ''Basic xyz'' []) authorizationHeader)"
    by (simp add: GetHeader_def ctx_of_def authorizationHeader_def bearerPrefix_def)
  have h3: "GetHeader (ctx_of ''Bearer '' []) authorizationHeader = bearerPrefix"
    by (simp add: GetHeader_def ctx_of_def authorizationHeader_def bearerPrefix_def)
  have h4: "GetHeader (ctx_of ''Bearer token-of-7'' []) authorizationHeader
              = bearerPrefix @ ''token-of-7'' \<and> ''token-of-7'' \<noteq> [] \<and>
            jwtValidator validator_double ''token-of-7'' = Inr \<lparr>c_UserId = 7, c_Role = ''user''\<rparr>"
    by (simp add: GetHeader_def ctx_of_def authorizationHeader_def bearerPrefix_def
        validator_double_def)
  have n: "\<not> aborted (ctx_of ''Bearer token-of-7'' [])"
    by (simp add: ctx_of_def)
  from RequireAuth_outcomes [of "ctx_of [] []" validator_double] h1
  have p1: "resp_Body (RequireAuth validator_double (ctx_of [] [])) ''message''
              = Some (JString ''authorization header is required'')"
    by blast
  from RequireAuth_outcomes [of "ctx_of ''Basic xyz'' []" validator_double] h2
  have p2: "resp_Body (RequireAuth validator_double (ctx_of ''Basic xyz'' [])) ''message''
              = Some (JString ''invalid authorization header format'')"
    by blast
  from RequireAuth_outcomes [of "ctx_of ''Bearer '' []" validator_double] h3
  have p3: "resp_Body (RequireAuth validator_double (ctx_of ''Bearer '' [])) ''message''
              = Some (JString ''token is required'')"
    by blast
  from RequireAuth_outcomes [of "ctx_of ''Bearer token-of-7'' []" validator_double] h4
  have "aborted (RequireAuth validator_double (ctx_of ''Bearer token-of-7'' []))
          = aborted (ctx_of ''Bearer token-of-7'' []) \<and>
        GetUserId (RequireAuth validator_double (ctx_of ''Bearer token-of-7'' []))
          = c_UserId \<lparr>c_UserId = 7, c_Role = ''user''\<rparr> \<and>
        GetUserRole (RequireAuth validator_double (ctx_of ''Bearer token-of-7'' []))
          = c_Role \<lparr>c_UserId = 7, c_Role = ''user''\<rparr>"
    by blast
  with n have p4: "\<not> aborted (RequireAuth validator_double (ctx_of ''Bearer token-of-7'' [])) \<and>
      GetUserId (RequireAuth validator_double (ctx_of ''Bearer token-of-7'' [])) = 7 \<and>
      GetUserRole (RequireAuth validator_double (ctx_of ''Bearer token-of-7'' [])) = ''user''"
    by simp
  from p1 p2 p3 p4 show ?thesis by simp
qed

subsection \<open>Self-or-admin gate\<close>

lemma RequireAdminOrSelf_passes_iff:
  assumes "\<not> aborted c"
  shows "\<not> aborted (RequireAdminOrSelf paramName c) \<longleftrightarrow>
           GetUserRole c = RoleAdmin \<or>
           (Param c paramName \<noteq> [] \<and>
            Param c paramName = string_of_rune (rune_of_int (GetUserId c)))"
  using assms by (auto simp add: RequireAdminOrSelf_def Let_def AbortWithStatusJSON_def)

text \<open>
  C1. A request with a token for the identity with id 7 and role "user", for the path id
  "7" (which \<open>Atoi\<close> reads as 7): the authentication gate installs the identity, and the
  self-or-admin gate aborts with 403 and "insufficient permissions". The gate compares
  the path text with \<open>string(rune(7))\<close>, the one-byte string of code 7, not with "7".
\<close>

theorem RequireAdminOrSelf_rejects_own_id:
  "aborted (run_chain [RequireAuth validator_double, RequireAdminOrSelf ''id'']
              (ctx_of ''Bearer token-of-7'' [(''id'', ''7'')])) \<and>
   resp_Status (run_chain [RequireAuth validator_double, RequireAdminOrSelf ''id'']
              (ctx_of ''Bearer token-of-7'' [(''id'', ''7'')])) = Some 403 \<and>
   resp_Body (run_chain [RequireAuth validator_double, RequireAdminOrSelf ''id'']
              (ctx_of ''Bearer token-of-7'' [(''id'', ''7'')])) ''message''
     = Some (JString ''insufficient permissions'') \<and>
   GetUserId (RequireAuth validator_double (ctx_of ''Bearer token-of-7'' [(''id'', ''7'')])) = 7 \<and>
   GetUserRole (RequireAuth validator_double (ctx_of ''Bearer token-of-7'' [(''id'', ''7'')]))
     = ''user'' \<and>
   atoi_double (Param (ctx_of ''Bearer token-of-7'' [(''id'', ''7'')]) ''id'') = Inr 7"
  by (simp add: auth_defs gin_defs RequireAdminOrSelf_def RoleAdmin_def string_of_rune_def
      rune_of_int_def char_of_def atoi_double_def Let_def)

text \<open>
  The rest of the claim's example holds on the code: the same identity is refused for the
  path id "8", and an administrator passes. But the identity with id 55 passes for the
  path id "7", since 55 is the code of the character 7.
\<close>

lemma RequireAdminOrSelf_other_cases:
  "aborted (run_chain [RequireAuth validator_double, RequireAdminOrSelf ''id'']
              (ctx_of ''Bearer token-of-7'' [(''id'', ''8'')])) \<and>
   \<not> aborted (run_chain [RequireAuth validator_double, RequireAdminOrSelf ''id'']
              (ctx_of ''Bearer token-of-admin'' [(''id'', ''8'')]))"
  by (simp add: auth_defs gin_defs RequireAdminOrSelf_def RoleAdmin_def string_of_rune_def
      rune_of_int_def char_of_def Let_def)

lemma RequireAdminOrSelf_passes_other_id:
  "\<not> aborted (run_chain [RequireAuth validator_double, RequireAdminOrSelf ''id'']
              (ctx_of ''Bearer token-of-55'' [(''id'', ''7'')])) \<and>
   GetUserId (RequireAuth validator_double (ctx_of ''Bearer token-of-55'' [(''id'', ''7'')])) = 55"
  by (simp add: auth_defs gin_defs RequireAdminOrSelf_def RoleAdmin_def string_of_rune_def
      rune_of_int_def char_of_def Let_def)

text \<open>
  No identity at all passes for the decimal text of its own id: the text starts with a
  minus sign or a digit, and the string of a rune is one byte below 128 that is the id
  itself, or starts with a byte from 192 on.
\<close>

declare digits.simps [simp del]

lemma digits_head:
  "\<exists>c cs. digits k = c # cs \<and> (of_char c :: int) \<le> 57 \<and>
          (cs = [] \<longrightarrow> k < 10 \<and> c = digit_char k)"
proof (induction k rule: digits.induct)
  case (1 n)
  show ?case
  proof (cases "n < 10")
    case True
    then have "digits n = [digit_char n]"
      by (subst digits.simps) simp
    moreover have "(of_char (digit_char n) :: int) \<le> 57"
      using True by (simp add: digit_char_def)
    ultimately show ?thesis
      using True by simp
  next
    case False
    then have d: "digits n = digits (n div 10) @ [digit_char (n mod 10)]"
      by (subst digits.simps) simp
    from "1.IH" [OF False] obtain c cs
      where "digits (n div 10) = c # cs" and "(of_char c :: int) \<le> 57"
      by blast
    with d show ?thesis by simp
  qed
qed

lemma Itoa_head:
  "\<exists>c cs. Itoa n = c # cs \<and> (of_char c :: int) \<le> 57 \<and>
          (cs = [] \<longrightarrow> 0 \<le> n \<and> n < 10 \<and> c = char_of (48 + n))"
proof (cases "n < 0")
  case True
  from digits_head [of "nat (- n)"] obtain c cs where "digits (nat (- n)) = c # cs"
    by blast
  with True show ?thesis
    by (simp add: Itoa_def)
next
  case False
  from digits_head [of "nat n"] obtain c cs
    where d: "digits (nat n) = c # cs" "(of_char c :: int) \<le> 57"
      "cs = [] \<longrightarrow> nat n < 10 \<and> c = digit_char (nat n)"
    by blast
  with False show ?thesis
    by (auto simp add: Itoa_def digit_char_def)
qed

lemma string_of_rune_head:
  "\<exists>c cs. string_of_rune r = c # cs \<and>
     ((cs = [] \<and> 0 \<le> r \<and> r < 128 \<and> c = char_of r) \<or> 192 \<le> (of_char c :: int))"
proof -
  have a: "128 \<le> r \<Longrightarrow> r < 2048 \<Longrightarrow>
           (192 + r div 64) mod 256 = 192 + r div 64 \<and> 192 \<le> 192 + r div 64"
    by auto
  have b: "2048 \<le> r \<Longrightarrow> r < 65536 \<Longrightarrow>
           (224 + r div 4096) mod 256 = 224 + r div 4096 \<and> 192 \<le> 224 + r div 4096"
    by auto
  have c: "65536 \<le> r \<Longrightarrow> r \<le> 1114111 \<Longrightarrow>
           (240 + r div 262144) mod 256 = 240 + r div 262144 \<and> 192 \<le> 240 + r div 262144"
    by auto
  show ?thesis
    using a b c by (auto simp add: string_of_rune_def)
qed

lemma Itoa_never_string_of_rune: "Itoa n \<noteq> string_of_rune (rune_of_int n)"
proof
  assume eq: "Itoa n = string_of_rune (rune_of_int n)"
  from Itoa_head [of n] obtain c cs
    where i: "Itoa n = c # cs" "(of_char c :: int) \<le> 57"
      "cs = [] \<longrightarrow> 0 \<le> n \<and> n < 10 \<and> c = char_of (48 + n)"
    by blast
  from string_of_rune_head [of "rune_of_int n"] obtain d ds
    where s: "string_of_rune (rune_of_int n) = d # ds"
      "(ds = [] \<and> 0 \<le> rune_of_int n \<and> rune_of_int n < 128 \<and> d = char_of (rune_of_int n)) \<or>
       192 \<le> (of_char d :: int)"
    by blast
  from eq i s have cd: "c = d" "cs = ds"
    by simp_all
  from s(2) show False
  proof
    assume h: "ds = [] \<and> 0 \<le> rune_of_int n \<and> rune_of_int n < 128 \<and>
               d = char_of (rune_of_int n)"
    with cd i(3) have n: "0 \<le> n" "n < 10" "c = char_of (48 + n)"
      by simp_all
    then have "rune_of_int n = n"
      by (simp add: rune_of_int_def signed_take_bit_int_eq_self)
    with h cd n have "char_of (48 + n) = char_of n"
      by simp
    then have "(48 + n) mod 256 = n mod 256"
      by simp
    with n show False
      by simp
  next
    assume "192 \<le> (of_char d :: int)"
    with cd i(2) show False
      by simp
  qed
qed

lemma RequireAdminOrSelf_never_own_decimal_id:
  assumes "GetUserRole c \<noteq> RoleAdmin" and "Param c paramName = Itoa (GetUserId c)"
  shows "aborted (RequireAdminOrSelf paramName c) \<and>
         resp_Status (RequireAdminOrSelf paramName c) = Some 403"
  using assms Itoa_never_string_of_rune [of "GetUserId c"]
  by (simp add: RequireAdminOrSelf_def Let_def AbortWithStatusJSON_def)

section \<open>Token service\<close>

lemma NewJWTService_fields:
  assumes "NewJWTService config = Inr s"
  shows "secretKey s = cfg_SecretKey config \<and> cfg_SecretKey config \<noteq> [] \<and>
         tokenDuration s =
           (if cfg_TokenDuration config = 0 then 24 * Hour else cfg_TokenDuration config)"
  using assms by (auto simp add: NewJWTService_def Let_def split: if_splits)

lemma truncate_to_second: "a + Second \<le> b \<Longrightarrow> a - a mod Second < b - b mod Second"
proof -
  assume h: "a + Second \<le> b"
  have 1: "0 \<le> a mod Second"
    by (simp add: Second_def)
  have 2: "b mod Second < Second"
    by (simp add: Second_def)
  from h 1 2 show ?thesis
    by linarith
qed

subsection \<open>Issued-at and expiry\<close>

text \<open>
  C4, as the code has it. The lifetime in force is 24 hours when the configured lifetime
  is zero, and the configured lifetime otherwise, whatever its sign. The claims that
  \<open>GenerateToken\<close> signs carry the numeric date of the issuing time as issued-at and the
  numeric date of that time plus the lifetime in force as expiry. If the numeric-date
  conversion separates any two times that are at least \<open>p\<close> apart, and \<open>p\<close> is at most 24
  hours, then the expiry is strictly after the issued-at whenever the configured lifetime
  is zero or at least \<open>p\<close>. If the conversion is monotone, a negative configured lifetime
  gives an expiry that is not after the issued-at.
\<close>

theorem GenerateToken_claims_times:
  assumes "NewJWTService config = Inr s"
  shows "tokenDuration s =
           (if cfg_TokenDuration config = 0 then 24 * Hour else cfg_TokenDuration config) \<and>
         GenerateToken lib s now uid role =
           SignedString lib (secretKey s) (GenerateToken_claims lib s now uid role) \<and>
         cc_IssuedAt (GenerateToken_claims lib s now uid role) = Some (NewNumericDate lib now) \<and>
         cc_ExpiresAt (GenerateToken_claims lib s now uid role)
           = Some (NewNumericDate lib (now + tokenDuration s)) \<and>
         ((\<forall>a b. a + p \<le> b \<longrightarrow> NewNumericDate lib a < NewNumericDate lib b) \<and> p \<le> 24 * Hour \<and>
          (cfg_TokenDuration config = 0 \<or> p \<le> cfg_TokenDuration config)
            \<longrightarrow> NewNumericDate lib now < NewNumericDate lib (now + tokenDuration s)) \<and>
         ((\<forall>a b. a \<le> b \<longrightarrow> NewNumericDate lib a \<le> NewNumericDate lib b) \<and>
          cfg_TokenDuration config < 0
            \<longrightarrow> NewNumericDate lib (now + tokenDuration s) \<le> NewNumericDate lib now)"
  using NewJWTService_fields [OF assms]
  by (auto simp add: GenerateToken_def GenerateToken_claims_def)

theorem GenerateToken_claims_times_witness:
  "cc_IssuedAt (GenerateToken_claims stub_jwt
      \<lparr>secretKey = ''test-secret-key'', tokenDuration = 24 * Hour,
       issuer = ''go-backend-template''\<rparr> 1700000000123456789 1 ''user'')
     = Some 1700000000000000000 \<and>
   cc_ExpiresAt (GenerateToken_claims stub_jwt
      \<lparr>secretKey = ''test-secret-key'', tokenDuration = 24 * Hour,
       issuer = ''go-backend-template''\<rparr> 1700000000123456789 1 ''user'')
     = Some 1700086400000000000"
proof -
  have n: "NewJWTService \<lparr>cfg_SecretKey = ''test-secret-key'', cfg_TokenDuration = 0,
                          cfg_Issuer = []\<rparr>
             = Inr \<lparr>secretKey = ''test-secret-key'', tokenDuration = 24 * Hour,
                    issuer = ''go-backend-template''\<rparr>"
    by (simp add: NewJWTService_def)
  have nd: "NewNumericDate stub_jwt = (\<lambda>t. t - t mod Second)"
    by (simp add: stub_jwt_def)
  have m: "\<forall>a b. a + Second \<le> b \<longrightarrow> NewNumericDate stub_jwt a < NewNumericDate stub_jwt b"
    by (simp add: nd truncate_to_second)
  have p: "Second \<le> 24 * Hour"
    by (simp add: Second_def Hour_def)
  from GenerateToken_claims_times [OF n, of stub_jwt 1700000000123456789 1 "''user''" Second] m p
  show ?thesis
    by (simp add: nd Second_def Hour_def)
qed

text \<open>
  C4, as it is stated, fails for the configuration of the repository's own test of an
  expired token, a lifetime of minus one hour: the service is constructed, and the
  expiry of its claims is one hour before the issued-at.
\<close>

theorem GenerateToken_negative_lifetime:
  "NewJWTService \<lparr>cfg_SecretKey = ''test-secret-key'', cfg_TokenDuration = - Hour,
                  cfg_Issuer = []\<rparr>
     = Inr \<lparr>secretKey = ''test-secret-key'', tokenDuration = - Hour,
            issuer = ''go-backend-template''\<rparr> \<and>
   cc_IssuedAt (GenerateToken_claims stub_jwt
      \<lparr>secretKey = ''test-secret-key'', tokenDuration = - Hour,
       issuer = ''go-backend-template''\<rparr> 1700000000000000000 1 ''user'')
     = Some 1700000000000000000 \<and>
   cc_ExpiresAt (GenerateToken_claims stub_jwt
      \<lparr>secretKey = ''test-secret-key'', tokenDuration = - Hour,
       issuer = ''go-backend-template''\<rparr> 1700000000000000000 1 ''user'')
     = Some 1699996400000000000 \<and>
   \<not> (1700000000000000000 < (1699996400000000000::int))"
  by (simp add: NewJWTService_def GenerateToken_claims_def stub_jwt_def Second_def Hour_def)

subsection \<open>Verification\<close>



lemma ValidateToken_expired:
  assumes "ParseWithClaims lib now tokenString (keyfunc s) = ParseError t err"
    and "jwt_errors_Is err ErrTokenExpired"
  shows "ValidateToken lib s now tokenString = Inl ErrExpiredToken"
  using assms by (simp add: ValidateToken_def)

lemma ValidateToken_valid:
  assumes "ParseWithClaims lib now tokenString (keyfunc s) = ParseOK token"
    and "tk_Claims token = CustomClaimsPtr claims" and "tk_Valid token"
  shows "ValidateToken lib s now tokenString
           = Inr \<lparr>c_UserId = cc_UserId claims, c_Role = cc_Role claims\<rparr>"
  using assms by (simp add: ValidateToken_def)




end
